theory Spec2Isabelle
  imports Complex_Main "HOL-Library.Char_ord" "HOL-Library.List_Lexorder"
begin

section \<open>Data model of app.py\<close>

text \<open>
  The application keeps three tables in a spreadsheet and reads them into pandas
  data frames. A row of a table is a record with one field per column; the column
  types change under normalisation (a raw cell becomes a timestamp or a float), so
  the row records are polymorphic in the types of those columns. The numbers of the
  tables are reals; where the last bit of a Python float decides a result, in the goal
  progress, the arithmetic is that of double-precision floats. Python strings are
  strings of 8-bit characters.
\<close>

text \<open>\<^verbatim>\<open>datetime.date\<close>: compared by year, then month, then day.\<close>

record pydate =
  year :: nat
  month :: nat
  day :: nat

text \<open>A pandas timestamp: a calendar date and a time of day; \<^verbatim>\<open>.dt.date\<close> is \<open>date_part\<close>.\<close>

record timestamp =
  date_part :: pydate
  seconds :: nat

text \<open>Transactions: columns Date, Category, Description, Amount, Payment Method, Notes, Payer.\<close>

record ('d, 'n) txn_row =
  Date :: 'd
  Category :: string
  Description :: string
  Amount :: 'n
  Payment_Method :: string
  Notes :: string
  Payer :: string

text \<open>Budgets: columns Category, Monthly Budget.\<close>

record 'n budget_row =
  Budget_Category :: string
  Monthly_Budget :: 'n

text \<open>Goals: columns Goal Name, Target Amount, Current Saved.\<close>

record 'n goal_row =
  Goal_Name :: string
  Target_Amount :: 'n
  Current_Saved :: 'n

text \<open>
  A normalised transaction: the Date column holds timestamps, \<open>None\<close> being pandas'
  missing timestamp \<^verbatim>\<open>NaT\<close>; the Amount column holds floats.
\<close>

type_synonym txn = "(timestamp option, real) txn_row"

text \<open>The exceptions of Python that the modelled lines can raise.\<close>

datatype py_error = KeyError string | ValueError string | IndexError | ZeroDivisionError
  | TypeError | AttributeError | OverflowError

section \<open>Aggregation (dashboard tab)\<close>

definition date_le :: "pydate \<Rightarrow> pydate \<Rightarrow> bool" where
  "date_le a b =
     (year a < year b \<or>
      (year a = year b \<and> (month a < month b \<or> (month a = month b \<and> day a \<le> day b))))"

text \<open>
  Lines 169-170: \<^verbatim>\<open>mask = (Date.dt.date >= start_date) & (Date.dt.date <= end_date)\<close>
  and \<^verbatim>\<open>df_filtered = transactions_df.loc[mask]\<close>. \<^verbatim>\<open>.dt.date\<close> gives a column of objects:
  a \<^verbatim>\<open>datetime.date\<close> for a timestamp, \<^verbatim>\<open>NaT\<close> for a missing one. In a column that holds
  a date the comparison of \<^verbatim>\<open>NaT\<close> with a date is false, so a row without a timestamp
  is not selected.
\<close>

definition in_range :: "pydate \<Rightarrow> pydate \<Rightarrow> txn \<Rightarrow> bool" where
  "in_range start_date end_date t =
     (case Date t of
        None \<Rightarrow> False
      | Some ts \<Rightarrow> date_le start_date (date_part ts) \<and> date_le (date_part ts) end_date)"

text \<open>
  A column of \<^verbatim>\<open>NaT\<close> alone is taken by pandas for a \<^verbatim>\<open>datetime64\<close> column again, and
  its comparison with a \<^verbatim>\<open>datetime.date\<close> raises \<^verbatim>\<open>TypeError\<close>. In the frame without
  rows of line 117 the Date column holds objects, on which \<^verbatim>\<open>.dt\<close> raises
  \<^verbatim>\<open>AttributeError\<close>; the dashboard evaluates the two lines only when the table has a
  row (line 165).
\<close>

definition df_filtered :: "pydate \<Rightarrow> pydate \<Rightarrow> txn list \<Rightarrow> py_error + txn list" where
  "df_filtered start_date end_date transactions_df =
     (if transactions_df = [] then Inl AttributeError
      else if list_all (\<lambda>t. Date t = None) transactions_df then Inl TypeError
      else Inr (filter (in_range start_date end_date) transactions_df))"

text \<open>
  Line 191: \<^verbatim>\<open>df_month.groupby("Category")["Amount"].sum().reset_index()\<close> has one row
  per category of the month, the categories in sorted order, with the sum of the
  amounts of that category.
\<close>

definition category_total :: "txn list \<Rightarrow> string \<Rightarrow> real" where
  "category_total df_month c = sum_list (map Amount (filter (\<lambda>t. Category t = c) df_month))"

definition groupby_sum :: "txn list \<Rightarrow> (string \<times> real) list" where
  "groupby_sum df_month =
     map (\<lambda>c. (c, category_total df_month c)) (sort (remdups (map Category df_month)))"

text \<open>
  \<^verbatim>\<open>.sort_values("Amount", ascending=False)\<close>: descending by amount. The order of rows
  with equal amounts is left open by pandas' default sort; the model keeps their order.
\<close>

definition cat_summary :: "txn list \<Rightarrow> (string \<times> real) list" where
  "cat_summary df_month = sort_key (\<lambda>(c, a). - a) (groupby_sum df_month)"

text \<open>
  Line 203: \<^verbatim>\<open>pd.merge(cat_summary, budgets_df, on="Category", how="right")\<close>. A right
  join: for every row of the right table, in its order, one output row per matching
  row of the left table, and one row with a missing left value when none matches.
\<close>

definition merge_right ::
  "(string \<times> real) list \<Rightarrow> real budget_row list \<Rightarrow> (string \<times> real option \<times> real) list" where
  "merge_right left right =
     concat (map (\<lambda>b.
       (case filter (\<lambda>(c, a). c = Budget_Category b) left of
          [] \<Rightarrow> [(Budget_Category b, None, Monthly_Budget b)]
        | ms \<Rightarrow> map (\<lambda>(c, a). (c, Some a, Monthly_Budget b)) ms)) right)"

text \<open>\<^verbatim>\<open>.fillna(0)\<close> on the Amount column of the join.\<close>

definition fillna :: "real \<Rightarrow> real option \<Rightarrow> real" where
  "fillna v x = (case x of None \<Rightarrow> v | Some y \<Rightarrow> y)"

text \<open>
  Line 207:
  \<^verbatim>\<open>0 if r["Budget"] == 0 else min(100, (r["Spent"]/r["Budget"]*100))\<close>.
\<close>

definition used_pct :: "real \<Rightarrow> real \<Rightarrow> real" where
  "used_pct spent budget = (if budget = 0 then 0 else min 100 (spent / budget * 100))"

text \<open>The rows of \<^verbatim>\<open>merged\<close> after lines 203-207: Category, Spent, Budget, UsedPct.\<close>

record merged_row =
  Merged_Category :: string
  Spent :: real
  Budget :: real
  UsedPct :: real

definition merged :: "txn list \<Rightarrow> real budget_row list \<Rightarrow> merged_row list" where
  "merged df_month budgets_df =
     map (\<lambda>(c, s, b).
            \<lparr>Merged_Category = c, Spent = fillna 0 s, Budget = b,
             UsedPct = used_pct (fillna 0 s) b\<rparr>)
         (merge_right (cat_summary df_month) budgets_df)"

text \<open>
  Lines 173-178: the month keys of the filtered rows, sorted and without repetition,
  the default selection (the last key) and the rows of the selected month.
  \<^verbatim>\<open>.dt.to_period("M").astype(str)\<close> writes a month as the year, zero-padded to four
  digits, a dash and the month, zero-padded to two digits; a missing timestamp is
  written \<^verbatim>\<open>NaT\<close>.
\<close>

definition digit :: "nat \<Rightarrow> char" where
  "digit n = char_of (48 + n)"

fun decimal :: "nat \<Rightarrow> string" where
  "decimal n = (if n < 10 then [digit n] else decimal (n div 10) @ [digit (n mod 10)])"

declare decimal.simps [simp del]

definition zero_pad :: "nat \<Rightarrow> nat \<Rightarrow> string" where
  "zero_pad w n = replicate (w - length (decimal n)) (CHR ''0'') @ decimal n"

definition month_key :: "timestamp option \<Rightarrow> string" where
  "month_key d =
     (case d of
        None \<Rightarrow> ''NaT''
      | Some ts \<Rightarrow> zero_pad 4 (year (date_part ts)) @ ''-'' @ zero_pad 2 (month (date_part ts)))"

text \<open>\<^verbatim>\<open>Series.unique()\<close>: the values in the order of their first appearance.\<close>

fun unique :: "'a list \<Rightarrow> 'a list" where
  "unique [] = []"
| "unique (x # xs) = x # unique (filter (\<lambda>y. y \<noteq> x) xs)"

definition months :: "txn list \<Rightarrow> string list" where
  "months df = unique (sort (map (\<lambda>t. month_key (Date t)) df))"

text \<open>
  \<^verbatim>\<open>st.selectbox("Select month", months, index=len(months)-1)\<close>: without a choice of the
  user the selected month is the last key. The dashboard reaches this line only when
  \<^verbatim>\<open>len(months)\<close> is not 0 (line 174); \<open>None\<close> is the other branch.
\<close>

definition selected_month :: "txn list \<Rightarrow> string option" where
  "selected_month df = (if length (months df) = 0 then None else Some (months df ! (length (months df) - 1)))"

definition df_month :: "txn list \<Rightarrow> string \<Rightarrow> txn list" where
  "df_month df m = filter (\<lambda>t. month_key (Date t) = m) df"

text \<open>
  The range of pandas timestamps (years 1677 to 2262), with a month between 1 and 12:
  what every parsed date of the Date column satisfies.
\<close>

definition valid_timestamp :: "timestamp \<Rightarrow> bool" where
  "valid_timestamp ts =
     (1677 \<le> year (date_part ts) \<and> year (date_part ts) \<le> 2262 \<and>
      1 \<le> month (date_part ts) \<and> month (date_part ts) \<le> 12)"

section \<open>Goal progress (goals tab)\<close>

text \<open>
  The progress of a goal is the integer part of a quotient times 100, and the last bit
  of that product decides it. Python's floats are therefore modelled here as what they
  are, IEEE 754 double-precision numbers: a finite real, an infinity or \<^verbatim>\<open>nan\<close>. The
  sign of a zero plays no part in line 288 and is not modelled.
\<close>

datatype float64 = Fin real | PInf | NInf | NaN

text \<open>Rounding to the nearest integer, a tie going to the even one.\<close>

definition round_even :: "real \<Rightarrow> int" where
  "round_even y =
     (let f = \<lfloor>y\<rfloor> in
      if y - of_int f < 1 / 2 then f
      else if 1 / 2 < y - of_int f then f + 1
      else if even f then f else f + 1)"

text \<open>
  The binary exponent of a real \<open>x\<close>: the \<open>e\<close> with \<open>2 powi e \<le> \<bar>x\<bar> < 2 powi (e + 1)\<close>,
  kept between -1022, the exponent of the subnormal numbers, and 1024; it is found by
  counting up from -1022. Doubles have 53 significant bits, so the doubles around \<open>x\<close>
  are the multiples of \<open>2 powi (e - 52)\<close>.
\<close>

fun exponent_from :: "nat \<Rightarrow> int \<Rightarrow> real \<Rightarrow> int" where
  "exponent_from 0 e a = e"
| "exponent_from (Suc n) e a = (if a < 2 powi (e + 1) then e else exponent_from n (e + 1) a)"

definition exponent :: "real \<Rightarrow> int" where
  "exponent x = exponent_from 2046 (- 1022) \<bar>x\<bar>"

definition ulp :: "real \<Rightarrow> real" where
  "ulp x = 2 powi (exponent x - 52)"

text \<open>
  The double nearest to a real, a tie going to the even significand. A real that
  rounds to \<open>2 ^ 1024\<close> or beyond overflows to an infinity.
\<close>

definition fl :: "real \<Rightarrow> float64" where
  "fl x =
     (if x = 0 then Fin 0
      else
        (let y = of_int (round_even (x / ulp x)) * ulp x in
         if 2 ^ 1024 \<le> \<bar>y\<bar> then (if 0 < x then PInf else NInf) else Fin y))"

text \<open>\<^verbatim>\<open>a < b\<close> on floats: false when an operand is \<^verbatim>\<open>nan\<close>.\<close>

fun flt :: "float64 \<Rightarrow> float64 \<Rightarrow> bool" where
  "flt (Fin x) (Fin y) = (x < y)"
| "flt NaN b = False"
| "flt a NaN = False"
| "flt NInf NInf = False"
| "flt NInf b = True"
| "flt PInf b = False"
| "flt (Fin x) PInf = True"
| "flt (Fin x) NInf = False"

text \<open>
  The result of an operation with an infinite operand, from the sign it has: an
  infinity, or \<^verbatim>\<open>nan\<close> where there is no sign (infinity times zero, infinity by
  infinity).
\<close>

definition inf_of_sign :: "real \<Rightarrow> float64" where
  "inf_of_sign s = (if s = 0 then NaN else if 0 < s then PInf else NInf)"

fun fsign :: "float64 \<Rightarrow> real" where
  "fsign (Fin x) = sgn x"
| "fsign PInf = 1"
| "fsign NInf = - 1"
| "fsign NaN = 0"

text \<open>\<^verbatim>\<open>a * b\<close> on floats: the exact product, rounded.\<close>

fun fmul :: "float64 \<Rightarrow> float64 \<Rightarrow> float64" where
  "fmul (Fin x) (Fin y) = fl (x * y)"
| "fmul NaN b = NaN"
| "fmul a NaN = NaN"
| "fmul a b = inf_of_sign (fsign a * fsign b)"

text \<open>
  \<^verbatim>\<open>a / b\<close> on floats: Python raises \<^verbatim>\<open>ZeroDivisionError\<close> on a zero divisor; otherwise
  the exact quotient, rounded.
\<close>

fun fdiv :: "float64 \<Rightarrow> float64 \<Rightarrow> py_error + float64" where
  "fdiv a (Fin y) =
     (if y = 0 then Inl ZeroDivisionError
      else Inr (case a of Fin x \<Rightarrow> fl (x / y) | NaN \<Rightarrow> NaN | _ \<Rightarrow> inf_of_sign (fsign a * sgn y)))"
| "fdiv a NaN = Inr NaN"
| "fdiv (Fin x) b = Inr (Fin 0)"
| "fdiv a b = Inr NaN"

text \<open>\<^verbatim>\<open>min(a, b)\<close>: \<open>b\<close> when \<^verbatim>\<open>b < a\<close>, and \<open>a\<close> otherwise.\<close>

definition py_min :: "float64 \<Rightarrow> float64 \<Rightarrow> float64" where
  "py_min a b = (if flt b a then b else a)"

text \<open>
  \<^verbatim>\<open>int(x)\<close> truncates a finite float toward zero, and raises \<^verbatim>\<open>ValueError\<close> on \<^verbatim>\<open>nan\<close>
  and \<^verbatim>\<open>OverflowError\<close> on an infinity.
\<close>

definition trunc :: "real \<Rightarrow> int" where
  "trunc x = (if 0 \<le> x then \<lfloor>x\<rfloor> else \<lceil>x\<rceil>)"

fun py_int :: "float64 \<Rightarrow> py_error + int" where
  "py_int (Fin x) = Inr (trunc x)"
| "py_int NaN = Inl (ValueError ''cannot convert float NaN to integer'')"
| "py_int a = Inl OverflowError"

text \<open>
  Lines 286-288: \<^verbatim>\<open>target = float(r["Target Amount"])\<close>,
  \<^verbatim>\<open>current = float(r["Current Saved"])\<close> and
  \<^verbatim>\<open>pct = int(min(100, (current/target*100) if target > 0 else 0))\<close>. The float of a
  number of the table is the double nearest to it; the integers 100 and 0 of the line
  are exact as floats.
\<close>

definition goal_pct :: "real goal_row \<Rightarrow> py_error + int" where
  "goal_pct r =
     (let target = fl (Target_Amount r); current = fl (Current_Saved r) in
      if flt (Fin 0) target then
        (case fdiv current target of
           Inl e \<Rightarrow> Inl e
         | Inr q \<Rightarrow> py_int (py_min (Fin 100) (fmul q (Fin 100))))
      else py_int (py_min (Fin 100) (Fin 0)))"

section \<open>Raw tables and normalisation (lines 116-131)\<close>

text \<open>
  A raw cell is what \<^verbatim>\<open>get_all_records\<close> returns for it. For a numeric column: a
  number, or text that \<^verbatim>\<open>pd.to_numeric\<close> cannot read (a blank cell is the empty text).
  The Date column holds text: the form writes \<^verbatim>\<open>str(date_in)\<close> (line 154), and a blank
  cell is the empty text. A Date cell that holds a bare number is outside the model.
\<close>

datatype num_cell = Numeric real | Text string

type_synonym raw_txn = "(string, num_cell) txn_row"

text \<open>A data frame: its column labels and its rows.\<close>

record 'r dataframe =
  columns :: "string list"
  rows :: "'r list"

text \<open>\<^verbatim>\<open>df.empty\<close>: an axis of the frame has length 0.\<close>

definition df_empty :: "'r dataframe \<Rightarrow> bool" where
  "df_empty df = (length (columns df) = 0 \<or> length (rows df) = 0)"

text \<open>
  \<^verbatim>\<open>pd.DataFrame(records)\<close> on a list of dictionaries: the columns are the keys of the
  records, so a frame built from no record has no column at all.
\<close>

definition DataFrame :: "string list \<Rightarrow> 'r list \<Rightarrow> 'r dataframe" where
  "DataFrame keys records =
     (if records = [] then \<lparr>columns = [], rows = []\<rparr> else \<lparr>columns = keys, rows = records\<rparr>)"

text \<open>\<^verbatim>\<open>df[name]\<close> raises \<^verbatim>\<open>KeyError\<close> when the frame has no column of that name.\<close>

definition column :: "string \<Rightarrow> ('r \<Rightarrow> 'a) \<Rightarrow> 'r dataframe \<Rightarrow> py_error + 'a list" where
  "column name field df =
     (if name \<in> set (columns df) then Inr (map field (rows df)) else Inl (KeyError name))"

text \<open>
  \<^verbatim>\<open>pd.to_datetime\<close> is code of pandas, not of the application. What it does with a
  text is a parameter of the model: which texts besides the empty one it takes for a
  missing timestamp (pandas' \<^verbatim>\<open>nat_strings\<close>), the format it guesses from a text, the
  timestamp it reads from a text with a format, and the timestamp it reads from a text
  without one (with \<^verbatim>\<open>dateutil\<close>); \<open>None\<close> is a failure to guess or to read.
\<close>

record datetime_parser =
  nat_string :: "string \<Rightarrow> bool"
  guess_datetime_format :: "string \<Rightarrow> string option"
  strptime :: "string \<Rightarrow> string \<Rightarrow> timestamp option"
  dateutil_parse :: "string \<Rightarrow> timestamp option"

definition is_null :: "datetime_parser \<Rightarrow> string \<Rightarrow> bool" where
  "is_null lib s = (length s = 0 \<or> nat_string lib s)"

text \<open>
  \<^verbatim>\<open>pd.to_datetime(series)\<close> on a column of text, with no format given and the default
  \<^verbatim>\<open>errors="raise"\<close>, as pandas runs it from version 2 on. The format is guessed once,
  from the first text of the column that is not null. With a format, every text that
  is not null is read with that format; without one, each is read on its own. A null
  text gives \<^verbatim>\<open>NaT\<close>; the first text that cannot be read raises \<^verbatim>\<open>ValueError\<close>, and
  nothing is returned. (Pandas before version 2 never guesses a format by default: it
  is the parser whose \<open>guess_datetime_format\<close> is \<open>None\<close> everywhere.)
\<close>

fun first_non_null :: "datetime_parser \<Rightarrow> string list \<Rightarrow> string option" where
  "first_non_null lib [] = None"
| "first_non_null lib (s # cells) = (if is_null lib s then first_non_null lib cells else Some s)"

definition guess_datetime_format_for_array ::
  "datetime_parser \<Rightarrow> string list \<Rightarrow> string option" where
  "guess_datetime_format_for_array lib cells =
     (case first_non_null lib cells of
        None \<Rightarrow> None
      | Some s \<Rightarrow> guess_datetime_format lib s)"

definition parse_text :: "datetime_parser \<Rightarrow> string option \<Rightarrow> string \<Rightarrow> timestamp option" where
  "parse_text lib format s =
     (case format of
        None \<Rightarrow> dateutil_parse lib s
      | Some fmt \<Rightarrow> strptime lib s fmt)"

fun convert_listlike ::
  "datetime_parser \<Rightarrow> string option \<Rightarrow> string list \<Rightarrow> py_error + timestamp option list" where
  "convert_listlike lib format [] = Inr []"
| "convert_listlike lib format (s # cells) =
     (if is_null lib s then
        (case convert_listlike lib format cells of
           Inl e \<Rightarrow> Inl e
         | Inr ds \<Rightarrow> Inr (None # ds))
      else
        (case parse_text lib format s of
           None \<Rightarrow> Inl (ValueError s)
         | Some ts \<Rightarrow>
             (case convert_listlike lib format cells of
                Inl e \<Rightarrow> Inl e
              | Inr ds \<Rightarrow> Inr (Some ts # ds))))"

definition to_datetime ::
  "datetime_parser \<Rightarrow> string list \<Rightarrow> py_error + timestamp option list" where
  "to_datetime lib cells = convert_listlike lib (guess_datetime_format_for_array lib cells) cells"

text \<open>\<^verbatim>\<open>pd.to_numeric(series, errors="coerce")\<close>: \<open>None\<close> is \<^verbatim>\<open>NaN\<close>.\<close>

definition to_numeric :: "num_cell \<Rightarrow> real option" where
  "to_numeric c = (case c of Numeric x \<Rightarrow> Some x | Text s \<Rightarrow> None)"

definition normalize_transactions ::
  "datetime_parser \<Rightarrow> raw_txn dataframe \<Rightarrow> py_error + txn dataframe" where
  "normalize_transactions lib transactions_df =
     (if df_empty transactions_df then
        Inr \<lparr>columns = [''Date'', ''Category'', ''Description'', ''Amount'', ''Payment Method'',
                        ''Notes''],
             rows = []\<rparr>
      else
        (case to_datetime lib (map Date (rows transactions_df)) of
           Inl e \<Rightarrow> Inl e
         | Inr ds \<Rightarrow>
             Inr \<lparr>columns = columns transactions_df,
                  rows = map (\<lambda>(d, r).
                     \<lparr>Date = d, Category = Category r, Description = Description r,
                      Amount = fillna 0 (to_numeric (Amount r)),
                      Payment_Method = Payment_Method r, Notes = Notes r, Payer = Payer r\<rparr>)
                    (zip ds (rows transactions_df))\<rparr>))"

definition normalize_budgets :: "num_cell budget_row dataframe \<Rightarrow> real budget_row dataframe" where
  "normalize_budgets budgets_df =
     (if df_empty budgets_df then \<lparr>columns = [''Category'', ''Monthly Budget''], rows = []\<rparr>
      else
        \<lparr>columns = columns budgets_df,
         rows = map (\<lambda>r. \<lparr>Budget_Category = Budget_Category r,
                           Monthly_Budget = fillna 0 (to_numeric (Monthly_Budget r))\<rparr>)
                    (rows budgets_df)\<rparr>)"

definition normalize_goals :: "num_cell goal_row dataframe \<Rightarrow> real goal_row dataframe" where
  "normalize_goals goals_df =
     (if df_empty goals_df then
        \<lparr>columns = [''Goal Name'', ''Target Amount'', ''Current Saved''], rows = []\<rparr>
      else
        \<lparr>columns = columns goals_df,
         rows = map (\<lambda>r. \<lparr>Goal_Name = Goal_Name r,
                           Target_Amount = fillna 0 (to_numeric (Target_Amount r)),
                           Current_Saved = fillna 0 (to_numeric (Current_Saved r))\<rparr>)
                    (rows goals_df)\<rparr>)"

section \<open>The spreadsheets, the cache and the writes (lines 20-93)\<close>

definition SHEET_NAME :: string where
  "SHEET_NAME = ''Richman Finance Tracker''"

text \<open>
  Modelled from the spec: the header rows of the three worksheets, which are data of
  the spreadsheet and not of the program (section 6 of the specification). They are
  the keys of the records \<^verbatim>\<open>get_all_records\<close> returns.
\<close>

definition transactions_header :: "string list" where
  "transactions_header =
     [''Date'', ''Category'', ''Description'', ''Amount'', ''Payment Method'', ''Notes'', ''Payer'']"

definition budgets_header :: "string list" where
  "budgets_header = [''Category'', ''Monthly Budget'']"

definition goals_header :: "string list" where
  "goals_header = [''Goal Name'', ''Target Amount'', ''Current Saved'']"

text \<open>
  The state outside the script: for every spreadsheet name the rows below the header of
  its three worksheets (row \<open>i\<close> of the list, counted from 0, is row \<open>i + 2\<close> of the
  sheet), and the entries of \<^verbatim>\<open>st.cache_data\<close> for \<^verbatim>\<open>load_sheet_dataframe\<close>, one per
  worksheet and spreadsheet name. The expiry of an entry after 60 seconds is not
  modelled: an expired entry is an absent one.
\<close>

record world =
  transactions_ws :: "string \<Rightarrow> raw_txn list"
  budgets_ws :: "string \<Rightarrow> num_cell budget_row list"
  goals_ws :: "string \<Rightarrow> num_cell goal_row list"
  transactions_cache :: "string \<rightharpoonup> raw_txn list"
  budgets_cache :: "string \<rightharpoonup> num_cell budget_row list"
  goals_cache :: "string \<rightharpoonup> num_cell goal_row list"

text \<open>
  Lines 62-71, \<^verbatim>\<open>load_sheet_dataframe\<close>: a cached call returns the stored records, any
  other call reads the worksheet and stores what it read.
\<close>

definition cached_records ::
  "(string \<Rightarrow> 'r list) \<Rightarrow> (string \<rightharpoonup> 'r list) \<Rightarrow> string \<Rightarrow> 'r list \<times> (string \<rightharpoonup> 'r list)" where
  "cached_records ws cache spreadsheet_name =
     (case cache spreadsheet_name of
        Some records \<Rightarrow> (records, cache)
      | None \<Rightarrow> (ws spreadsheet_name, cache(spreadsheet_name \<mapsto> ws spreadsheet_name)))"

definition load_transactions :: "string \<Rightarrow> world \<Rightarrow> raw_txn dataframe \<times> world" where
  "load_transactions spreadsheet_name w =
     (let (records, c) = cached_records (transactions_ws w) (transactions_cache w) spreadsheet_name
      in (DataFrame transactions_header records, w\<lparr>transactions_cache := c\<rparr>))"

definition load_budgets :: "string \<Rightarrow> world \<Rightarrow> num_cell budget_row dataframe \<times> world" where
  "load_budgets spreadsheet_name w =
     (let (records, c) = cached_records (budgets_ws w) (budgets_cache w) spreadsheet_name
      in (DataFrame budgets_header records, w\<lparr>budgets_cache := c\<rparr>))"

definition load_goals :: "string \<Rightarrow> world \<Rightarrow> num_cell goal_row dataframe \<times> world" where
  "load_goals spreadsheet_name w =
     (let (records, c) = cached_records (goals_ws w) (goals_cache w) spreadsheet_name
      in (DataFrame goals_header records, w\<lparr>goals_cache := c\<rparr>))"

text \<open>\<^verbatim>\<open>load_sheet_dataframe.clear()\<close> drops every entry of the cache.\<close>

definition clear :: "world \<Rightarrow> world" where
  "clear w = w\<lparr>transactions_cache := Map.empty, budgets_cache := Map.empty,
               goals_cache := Map.empty\<rparr>"

text \<open>Lines 73-75: \<^verbatim>\<open>ws.append_row(row_values)\<close> adds a row below the last one.\<close>

definition append_transaction :: "raw_txn \<Rightarrow> string \<Rightarrow> world \<Rightarrow> world" where
  "append_transaction row_values spreadsheet_name w =
     (let (df, w1) = load_transactions spreadsheet_name w
      in w1\<lparr>transactions_ws := (transactions_ws w1)
               (spreadsheet_name := transactions_ws w1 spreadsheet_name @ [row_values])\<rparr>)"

text \<open>
  \<^verbatim>\<open>df.index[mask][0]\<close>: the position of the first row the mask selects;
  \<^verbatim>\<open>IndexError\<close> when it selects none.
\<close>

fun first_index :: "'a list \<Rightarrow> 'a \<Rightarrow> nat option" where
  "first_index [] x = None"
| "first_index (y # ys) x =
     (if y = x then Some 0 else map_option Suc (first_index ys x))"

text \<open>
  \<^verbatim>\<open>ws.update(f"B{idx}", v)\<close> writes one cell of sheet row \<open>idx\<close>, that is of row
  \<open>idx - 2\<close> of the list. Row 1 is the header, which the list does not hold; a row
  below the last one comes into being, with blank cells between.
\<close>

definition write_cell :: "('r \<Rightarrow> 'r) \<Rightarrow> 'r \<Rightarrow> nat \<Rightarrow> 'r list \<Rightarrow> 'r list" where
  "write_cell put blank idx body =
     (if idx < 2 then body
      else if idx - 2 < length body then body[idx - 2 := put (body ! (idx - 2))]
      else body @ replicate (idx - 2 - length body) blank @ [put blank])"

definition blank_budget :: "num_cell budget_row" where
  "blank_budget = \<lparr>Budget_Category = [], Monthly_Budget = Text []\<rparr>"

definition blank_goal :: "num_cell goal_row" where
  "blank_goal = \<lparr>Goal_Name = [], Target_Amount = Text [], Current_Saved = Text []\<rparr>"

text \<open>Lines 77-84.\<close>

definition update_budget_row :: "string \<Rightarrow> real \<Rightarrow> string \<Rightarrow> world \<Rightarrow> py_error + world" where
  "update_budget_row category amount spreadsheet_name w =
     (let (df, w1) = load_budgets spreadsheet_name w in
      case column ''Category'' Budget_Category df of
        Inl e \<Rightarrow> Inl e
      | Inr cats \<Rightarrow>
          if category \<in> set cats then
            (case first_index cats category of
               None \<Rightarrow> Inl IndexError
             | Some i \<Rightarrow>
                 Inr (w1\<lparr>budgets_ws := (budgets_ws w1)
                        (spreadsheet_name :=
                           write_cell (\<lambda>r. r\<lparr>Monthly_Budget := Numeric amount\<rparr>) blank_budget
                             (i + 2) (budgets_ws w1 spreadsheet_name))\<rparr>))
          else
            Inr (w1\<lparr>budgets_ws := (budgets_ws w1)
                   (spreadsheet_name := budgets_ws w1 spreadsheet_name @
                      [\<lparr>Budget_Category = category, Monthly_Budget = Numeric amount\<rparr>])\<rparr>))"

text \<open>Lines 86-93.\<close>

definition update_goal_row ::
  "string \<Rightarrow> real \<Rightarrow> real \<Rightarrow> string \<Rightarrow> world \<Rightarrow> py_error + world" where
  "update_goal_row goal_name target current spreadsheet_name w =
     (let (df, w1) = load_goals spreadsheet_name w in
      case column ''Goal Name'' Goal_Name df of
        Inl e \<Rightarrow> Inl e
      | Inr names \<Rightarrow>
          if goal_name \<in> set names then
            (case first_index names goal_name of
               None \<Rightarrow> Inl IndexError
             | Some i \<Rightarrow>
                 Inr (w1\<lparr>goals_ws := (goals_ws w1)
                        (spreadsheet_name :=
                           write_cell (\<lambda>r. r\<lparr>Current_Saved := Numeric current\<rparr>) blank_goal (i + 2)
                             (write_cell (\<lambda>r. r\<lparr>Target_Amount := Numeric target\<rparr>) blank_goal
                                (i + 2) (goals_ws w1 spreadsheet_name)))\<rparr>))
          else
            Inr (w1\<lparr>goals_ws := (goals_ws w1)
                   (spreadsheet_name := goals_ws w1 spreadsheet_name @
                      [\<lparr>Goal_Name = goal_name, Target_Amount = Numeric target,
                        Current_Saved = Numeric current\<rparr>])\<rparr>))"

section \<open>The script around the writes (lines 111-113, 152-159, 247-254, 272-279)\<close>

text \<open>
  Lines 111-113: every run of the script loads the three tables of the spreadsheet
  selected in the sidebar.
\<close>

definition load_data ::
  "string \<Rightarrow> world \<Rightarrow>
   (raw_txn dataframe \<times> num_cell budget_row dataframe \<times> num_cell goal_row dataframe) \<times> world" where
  "load_data spreadsheet_name w =
     (let (transactions_df, w1) = load_transactions spreadsheet_name w;
          (budgets_df, w2) = load_budgets spreadsheet_name w1;
          (goals_df, w3) = load_goals spreadsheet_name w2
      in ((transactions_df, budgets_df, goals_df), w3))"

text \<open>
  \<^verbatim>\<open>str(d)\<close> of a \<^verbatim>\<open>datetime.date\<close>: the year in four digits, the month and the day in
  two, with dashes between.
\<close>

definition isoformat :: "pydate \<Rightarrow> string" where
  "isoformat d = zero_pad 4 (year d) @ ''-'' @ zero_pad 2 (month d) @ ''-'' @ zero_pad 2 (day d)"

text \<open>
  Lines 152-159: the row of the form is appended, then the cache is cleared and the
  script runs again. \<^verbatim>\<open>append_transaction(row)\<close> names no spreadsheet, so the row goes
  to the default one. The Date cell holds \<^verbatim>\<open>str(date_in)\<close>.
\<close>

definition add_expense_submit ::
  "pydate \<Rightarrow> string \<Rightarrow> string \<Rightarrow> real \<Rightarrow> string \<Rightarrow> string \<Rightarrow> string \<Rightarrow> world \<Rightarrow> world" where
  "add_expense_submit date_in category_in desc_in amount_in method_in notes_in payer_in w =
     (let row = \<lparr>Date = isoformat date_in, Category = category_in,
                 Description = desc_in, Amount = Numeric amount_in, Payment_Method = method_in,
                 Notes = notes_in, Payer = payer_in\<rparr>
      in clear (append_transaction row SHEET_NAME w))"

text \<open>
  \<^verbatim>\<open>str.strip()\<close> removes the whitespace at both ends. Among the characters up to code
  255 the whitespace of Python is 9 to 13, 28 to 32, 133 and 160.
\<close>

definition is_space :: "char \<Rightarrow> bool" where
  "is_space c =
     (let n = (of_char c :: nat) in
      (9 \<le> n \<and> n \<le> 13) \<or> (28 \<le> n \<and> n \<le> 32) \<or> n = 133 \<or> n = 160)"

definition strip :: "string \<Rightarrow> string" where
  "strip s = rev (dropWhile is_space (rev (dropWhile is_space s)))"

text \<open>
  Lines 247-254 and 272-279: a blank name is refused with a warning and nothing is
  written; otherwise the row is upserted in the default spreadsheet and the cache is
  cleared. An exception of the upsert ends the run before the cache is cleared.
\<close>

definition budget_submit :: "string \<Rightarrow> real \<Rightarrow> world \<Rightarrow> py_error + world" where
  "budget_submit new_cat new_budget_amt w =
     (if strip new_cat = [] then Inr w
      else
        (case update_budget_row (strip new_cat) new_budget_amt SHEET_NAME w of
           Inl e \<Rightarrow> Inl e
         | Inr w1 \<Rightarrow> Inr (clear w1)))"

definition goal_submit :: "string \<Rightarrow> real \<Rightarrow> real \<Rightarrow> world \<Rightarrow> py_error + world" where
  "goal_submit goal_name target_amt current_amt w =
     (if strip goal_name = [] then Inr w
      else
        (case update_goal_row (strip goal_name) target_amt current_amt SHEET_NAME w of
           Inl e \<Rightarrow> Inl e
         | Inr w1 \<Rightarrow> Inr (clear w1)))"

section \<open>Sample rows\<close>

text \<open>A normalised transaction with a category and an amount, and nothing else.\<close>

definition expense :: "string \<Rightarrow> real \<Rightarrow> txn" where
  "expense c a =
     \<lparr>Date = None, Category = c, Description = [], Amount = a, Payment_Method = [],
      Notes = [], Payer = []\<rparr>"

text \<open>A timestamp from its year, month, day and second of the day.\<close>

definition stamp :: "nat \<Rightarrow> nat \<Rightarrow> nat \<Rightarrow> nat \<Rightarrow> timestamp" where
  "stamp y m d s = \<lparr>date_part = \<lparr>year = y, month = m, day = d\<rparr>, seconds = s\<rparr>"

text \<open>A raw transaction with a Date cell, a category and an Amount cell, and nothing else.\<close>

definition raw_expense :: "string \<Rightarrow> string \<Rightarrow> num_cell \<Rightarrow> raw_txn" where
  "raw_expense d c a =
     \<lparr>Date = d, Category = c, Description = [], Amount = a, Payment_Method = [],
      Notes = [], Payer = []\<rparr>"

text \<open>
  A state of the world: the three worksheets of the default spreadsheet hold the given
  rows, every other spreadsheet is empty, and nothing is cached.
\<close>

definition world_of ::
  "raw_txn list \<Rightarrow> num_cell budget_row list \<Rightarrow> num_cell goal_row list \<Rightarrow> world" where
  "world_of txns budgets goals =
     \<lparr>transactions_ws = (\<lambda>name. if name = SHEET_NAME then txns else []),
      budgets_ws = (\<lambda>name. if name = SHEET_NAME then budgets else []),
      goals_ws = (\<lambda>name. if name = SHEET_NAME then goals else []),
      transactions_cache = Map.empty, budgets_cache = Map.empty, goals_cache = Map.empty\<rparr>"

text \<open>Three transactions, of September and October 2025 and of December 2024.\<close>

definition sample :: "txn list" where
  "sample = [(expense ''Food'' 12)\<lparr>Date := Some (stamp 2025 9 30 0)\<rparr>,
             (expense ''Rent'' 900)\<lparr>Date := Some (stamp 2025 10 7 49500)\<rparr>,
             (expense ''Fuel'' 40)\<lparr>Date := Some (stamp 2024 12 31 0)\<rparr>]"

text \<open>
  Seven transactions around the first week of October 2025: one of the day before the
  week, one of its first day, one of its last day at 13:45, one without a date, one of
  the day after, the second one again, and one of the same week a year earlier.
\<close>

definition october :: "txn list" where
  "october =
     [(expense ''Food'' 12)\<lparr>Date := Some (stamp 2025 9 30 0)\<rparr>,
      (expense ''Rent'' 900)\<lparr>Date := Some (stamp 2025 10 1 0)\<rparr>,
      (expense ''Fuel'' 40)\<lparr>Date := Some (stamp 2025 10 7 49500)\<rparr>,
      expense ''Misc'' 1,
      (expense ''Gift'' 5)\<lparr>Date := Some (stamp 2025 10 8 0)\<rparr>,
      (expense ''Rent'' 900)\<lparr>Date := Some (stamp 2025 10 1 0)\<rparr>,
      (expense ''Book'' 7)\<lparr>Date := Some (stamp 2024 10 5 0)\<rparr>]"

text \<open>
  A parser for three texts, with what pandas 2 makes of them: two dates and a date with
  a time of day, each with the format guessed from it and read with that format only.
  Every other text is unreadable to it.
\<close>

definition sample_parser :: datetime_parser where
  "sample_parser =
     \<lparr>nat_string = (\<lambda>s. s \<in> set [''NaT'', ''nat'', ''NAT'', ''nan'', ''NaN'', ''NAN'']),
      guess_datetime_format =
        (\<lambda>s. if s = ''2025-10-07'' \<or> s = ''2025-10-08'' then Some ''%Y-%m-%d''
              else if s = ''2025-10-08 13:45:00'' then Some ''%Y-%m-%d %H:%M:%S''
              else None),
      strptime =
        (\<lambda>s fmt. if fmt = ''%Y-%m-%d'' \<and> s = ''2025-10-07'' then Some (stamp 2025 10 7 0)
                  else if fmt = ''%Y-%m-%d'' \<and> s = ''2025-10-08'' then Some (stamp 2025 10 8 0)
                  else if fmt = ''%Y-%m-%d %H:%M:%S'' \<and> s = ''2025-10-08 13:45:00''
                    then Some (stamp 2025 10 8 49500)
                  else None),
      dateutil_parse =
        (\<lambda>s. if s = ''2025-10-07'' then Some (stamp 2025 10 7 0)
              else if s = ''2025-10-08'' then Some (stamp 2025 10 8 0)
              else if s = ''2025-10-08 13:45:00'' then Some (stamp 2025 10 8 49500)
              else None)\<rparr>"

section \<open>Properties of the budget comparison\<close>

lemmas merged_eval =
  merged_def merge_right_def cat_summary_def groupby_sum_def category_total_def
  expense_def fillna_def used_pct_def

lemma distinct_groupby: "distinct (map fst (groupby_sum df))"
  by (simp add: groupby_sum_def comp_def)

lemma set_cat_summary: "set (cat_summary df) = set (groupby_sum df)"
  by (simp add: cat_summary_def)

lemma distinct_cat_summary: "distinct (map fst (cat_summary df))"
proof -
  have "distinct (map fst (groupby_sum df))" by (rule distinct_groupby)
  then have "distinct (groupby_sum df) \<and> inj_on fst (set (groupby_sum df))"
    by (simp add: distinct_map)
  then show ?thesis
    by (simp add: distinct_map cat_summary_def)
qed

lemma set_groupby:
  "set (groupby_sum df) = (\<lambda>c. (c, category_total df c)) ` Category ` set df"
  by (auto simp: groupby_sum_def)

lemma map_of_cat_summary:
  "map_of (cat_summary df) k =
     (if k \<in> Category ` set df then Some (category_total df k) else None)"
proof (cases "k \<in> Category ` set df")
  case True
  then have "(k, category_total df k) \<in> set (cat_summary df)"
    by (auto simp: set_cat_summary set_groupby)
  then show ?thesis using True distinct_cat_summary [of df]
    by simp
next
  case False
  then have "k \<notin> fst ` set (cat_summary df)"
    by (auto simp: set_cat_summary set_groupby)
  then show ?thesis using False
    by (simp add: map_of_eq_None_iff)
qed

lemma filter_key_distinct:
  "distinct (map fst xs) \<Longrightarrow>
   filter (\<lambda>(c, a). c = k) xs = (case map_of xs k of None \<Rightarrow> [] | Some a \<Rightarrow> [(k, a)])"
proof (induction xs)
  case Nil
  then show ?case by simp
next
  case (Cons x xs)
  obtain c a where x: "x = (c, a)" by (cases x)
  show ?case
  proof (cases "c = k")
    case True
    with Cons.prems x have "k \<notin> fst ` set xs" by auto
    then have "filter (\<lambda>(c, a). c = k) xs = []"
      by (force simp: filter_empty_conv)
    with True x show ?thesis by simp
  next
    case False
    with Cons x show ?thesis by simp
  qed
qed

text \<open>The left table has one row per category, so the join has one row per budget row.\<close>

lemma merge_right_cat_summary:
  "merge_right (cat_summary df) budgets =
     map (\<lambda>b. (Budget_Category b,
                if Budget_Category b \<in> Category ` set df
                then Some (category_total df (Budget_Category b)) else None,
                Monthly_Budget b)) budgets"
proof -
  have h: "(case filter (\<lambda>(c, a). c = Budget_Category b) (cat_summary df) of
           [] \<Rightarrow> [(Budget_Category b, None, Monthly_Budget b)]
         | ms \<Rightarrow> map (\<lambda>(c, a). (c, Some a, Monthly_Budget b)) ms) =
        [(Budget_Category b,
          if Budget_Category b \<in> Category ` set df
          then Some (category_total df (Budget_Category b)) else None,
          Monthly_Budget b)]" for b :: "real budget_row"
    by (simp add: filter_key_distinct [OF distinct_cat_summary] map_of_cat_summary)
  show ?thesis
    unfolding merge_right_def h by (induction budgets) simp_all
qed

lemma category_total_absent:
  "c \<notin> Category ` set df \<Longrightarrow> category_total df c = 0"
proof -
  assume "c \<notin> Category ` set df"
  then have "filter (\<lambda>t. Category t = c) df = []"
    by (auto simp: filter_empty_conv)
  then show ?thesis by (simp add: category_total_def)
qed

lemma merged_eq:
  "merged df budgets =
     map (\<lambda>b. \<lparr>Merged_Category = Budget_Category b,
               Spent = category_total df (Budget_Category b),
               Budget = Monthly_Budget b,
               UsedPct = used_pct (category_total df (Budget_Category b)) (Monthly_Budget b)\<rparr>)
         budgets"
  by (simp add: merged_def merge_right_cat_summary fillna_def category_total_absent comp_def)

lemma length_filter_key_distinct:
  "distinct (map f xs) \<Longrightarrow> c \<in> f ` set xs \<Longrightarrow> length (filter (\<lambda>x. f x = c) xs) = 1"
proof (induction xs)
  case Nil
  then show ?case by simp
next
  case (Cons x xs)
  show ?case
  proof (cases "f x = c")
    case True
    with Cons.prems have "c \<notin> f ` set xs" by auto
    then have "filter (\<lambda>x. f x = c) xs = []"
      by (auto simp: filter_empty_conv)
    with True show ?thesis by simp
  next
    case False
    with Cons show ?thesis by auto
  qed
qed

text \<open>
  C1, as the code has it. Every \<open>UsedPct\<close> of the budget comparison is at most 100: it is
  0 when the budget of the row is 0, and \<open>min 100 (Spent / Budget * 100)\<close> otherwise. The
  percentage has no lower clamp: it is at least 0 when the spent amount and the budget
  of the row are both at least 0.
\<close>

theorem used_pct_bounds:
  "r \<in> set (merged month_df budgets) \<Longrightarrow>
     UsedPct r \<le> 100 \<and>
     UsedPct r = (if Budget r = 0 then 0 else min 100 (Spent r / Budget r * 100)) \<and>
     (0 \<le> Spent r \<and> 0 \<le> Budget r \<longrightarrow> 0 \<le> UsedPct r)"
  by (auto simp: merged_eq used_pct_def)

text \<open>The scenario of the specification: 520 spent against a budget of 500 shows 100.\<close>

theorem used_pct_bounds_witness:
  "\<lparr>Merged_Category = ''Food'', Spent = 520, Budget = 500, UsedPct = 100\<rparr>
     \<in> set (merged [expense ''Food'' 520] [\<lparr>Budget_Category = ''Food'', Monthly_Budget = 500\<rparr>]) \<and>
   UsedPct \<lparr>Merged_Category = ''Food'', Spent = 520, Budget = 500, UsedPct = 100\<rparr> \<le> 100 \<and>
   0 \<le> UsedPct \<lparr>Merged_Category = ''Food'', Spent = 520, Budget = 500, UsedPct = 100\<rparr>"
proof -
  have h: "\<lparr>Merged_Category = ''Food'', Spent = 520, Budget = 500, UsedPct = 100\<rparr>
     \<in> set (merged [expense ''Food'' 520] [\<lparr>Budget_Category = ''Food'', Monthly_Budget = 500\<rparr>])"
    by (simp add: merged_eval)
  show ?thesis using used_pct_bounds [OF h] h by simp
qed

text \<open>
  C1 as stated fails: a category whose amounts of the month sum to -50 (a refund entered
  in the sheet), against a budget of 100, has the percentage -50, outside [0, 100].
\<close>

theorem used_pct_negative_counterexample:
  "map UsedPct
     (merged [expense ''Food'' (- 50)] [\<lparr>Budget_Category = ''Food'', Monthly_Budget = 100\<rparr>]) =
   [- 50]"
  by (simp add: merged_eval)

text \<open>
  C3, as the code has it. The budget comparison has one entry per row of the Budgets
  table, in the order of the table, so one entry per category when no category is
  listed twice. The spent amount of an entry is the total of its category in the month,
  which is 0 for a category without transactions. A category with transactions and no
  Budgets row has no entry in the comparison, and is in the per-category sums with its
  total.
\<close>

theorem merged_anchored_on_budgets:
  "map Merged_Category (merged month_df budgets) = map Budget_Category budgets \<and>
   (r \<in> set (merged month_df budgets) \<longrightarrow>
      Spent r = category_total month_df (Merged_Category r) \<and>
      (Merged_Category r \<notin> Category ` set month_df \<longrightarrow> Spent r = 0)) \<and>
   (distinct (map Budget_Category budgets) \<and> c \<in> Budget_Category ` set budgets \<longrightarrow>
      length (filter (\<lambda>r. Merged_Category r = c) (merged month_df budgets)) = 1) \<and>
   (c' \<in> Category ` set month_df \<and> c' \<notin> Budget_Category ` set budgets \<longrightarrow>
      c' \<notin> Merged_Category ` set (merged month_df budgets) \<and>
      (c', category_total month_df c') \<in> set (cat_summary month_df))"
proof -
  have a: "map Merged_Category (merged month_df budgets) = map Budget_Category budgets"
    by (simp add: merged_eq comp_def)
  have b: "Spent r = category_total month_df (Merged_Category r) \<and>
      (Merged_Category r \<notin> Category ` set month_df \<longrightarrow> Spent r = 0)"
    if "r \<in> set (merged month_df budgets)"
    using that by (auto simp: merged_eq category_total_absent)
  have c: "length (filter (\<lambda>r. Merged_Category r = c) (merged month_df budgets)) = 1"
    if "distinct (map Budget_Category budgets)" "c \<in> Budget_Category ` set budgets"
  proof -
    have "length (filter (\<lambda>r. Merged_Category r = c) (merged month_df budgets)) =
          length (filter (\<lambda>b. Budget_Category b = c) budgets)"
      by (simp add: merged_eq filter_map comp_def)
    with that show ?thesis by (simp add: length_filter_key_distinct)
  qed
  have d: "c' \<notin> Merged_Category ` set (merged month_df budgets) \<and>
      (c', category_total month_df c') \<in> set (cat_summary month_df)"
    if "c' \<in> Category ` set month_df" "c' \<notin> Budget_Category ` set budgets"
  proof -
    have "Merged_Category ` set (merged month_df budgets) = Budget_Category ` set budgets"
      using a by (metis set_map)
    moreover have "(c', category_total month_df c') \<in> set (cat_summary month_df)"
      using that(1) by (auto simp: set_cat_summary set_groupby)
    ultimately show ?thesis using that(2) by simp
  qed
  from a b c d show ?thesis by blast
qed

theorem merged_anchored_on_budgets_witness:
  "\<lparr>Merged_Category = ''Rent'', Spent = 0, Budget = 900, UsedPct = 0\<rparr>
     \<in> set (merged [expense ''Food'' 520, expense ''Snacks'' 3]
               [\<lparr>Budget_Category = ''Food'', Monthly_Budget = 500\<rparr>,
                \<lparr>Budget_Category = ''Rent'', Monthly_Budget = 900\<rparr>]) \<and>
   ''Rent'' \<notin> Category ` set [expense ''Food'' 520, expense ''Snacks'' 3] \<and>
   ''Snacks'' \<in> Category ` set [expense ''Food'' 520, expense ''Snacks'' 3] \<and>
   map Merged_Category
     (merged [expense ''Food'' 520, expense ''Snacks'' 3]
        [\<lparr>Budget_Category = ''Food'', Monthly_Budget = 500\<rparr>,
         \<lparr>Budget_Category = ''Rent'', Monthly_Budget = 900\<rparr>]) = [''Food'', ''Rent''] \<and>
   length (filter (\<lambda>r. Merged_Category r = ''Food'')
     (merged [expense ''Food'' 520, expense ''Snacks'' 3]
        [\<lparr>Budget_Category = ''Food'', Monthly_Budget = 500\<rparr>,
         \<lparr>Budget_Category = ''Rent'', Monthly_Budget = 900\<rparr>])) = 1 \<and>
   ''Snacks'' \<notin> Merged_Category ` set
     (merged [expense ''Food'' 520, expense ''Snacks'' 3]
        [\<lparr>Budget_Category = ''Food'', Monthly_Budget = 500\<rparr>,
         \<lparr>Budget_Category = ''Rent'', Monthly_Budget = 900\<rparr>]) \<and>
   (''Snacks'', 3) \<in> set (cat_summary [expense ''Food'' 520, expense ''Snacks'' 3])"
proof -
  let ?df = "[expense ''Food'' 520, expense ''Snacks'' 3]"
  let ?bs = "[\<lparr>Budget_Category = ''Food'', Monthly_Budget = 500\<rparr>,
              \<lparr>Budget_Category = ''Rent'', Monthly_Budget = 900 :: real\<rparr>]"
  let ?r = "\<lparr>Merged_Category = ''Rent'', Spent = 0, Budget = 900, UsedPct = 0\<rparr>"
  have h1: "?r \<in> set (merged ?df ?bs)"
    by (simp add: merged_eq category_total_def expense_def used_pct_def)
  have h2: "''Rent'' \<notin> Category ` set ?df" by (simp add: expense_def)
  have h2': "Merged_Category ?r \<notin> Category ` set ?df" using h2 by simp
  have h3: "distinct (map Budget_Category ?bs) \<and> ''Food'' \<in> Budget_Category ` set ?bs" by simp
  have h4: "''Snacks'' \<in> Category ` set ?df" by (simp add: expense_def)
  have h5: "''Snacks'' \<notin> Budget_Category ` set ?bs" by simp
  have t: "category_total ?df ''Snacks'' = 3" by (simp add: category_total_def expense_def)
  have m: "map Budget_Category ?bs = [''Food'', ''Rent'']" by simp
  from merged_anchored_on_budgets [of ?df ?bs ?r "''Food''" "''Snacks''"] h1 h2' h3 h4 h5
  have concl:
    "map Merged_Category (merged ?df ?bs) = map Budget_Category ?bs \<and>
     length (filter (\<lambda>r. Merged_Category r = ''Food'') (merged ?df ?bs)) = 1 \<and>
     ''Snacks'' \<notin> Merged_Category ` set (merged ?df ?bs) \<and>
     (''Snacks'', category_total ?df ''Snacks'') \<in> set (cat_summary ?df)"
    by blast
  have c1: "map Merged_Category (merged ?df ?bs) = [''Food'', ''Rent'']"
    using concl unfolding m by blast
  have c4: "(''Snacks'', 3) \<in> set (cat_summary ?df)"
    using concl unfolding t by blast
  show ?thesis using h1 h2 h4 c1 c4 concl by blast
qed

text \<open>
  C3 as stated fails: a Budgets table that lists Food twice gives two entries for
  Food, not one.
\<close>

theorem merged_duplicate_budget_counterexample:
  "map Merged_Category
     (merged [expense ''Food'' 520]
        [\<lparr>Budget_Category = ''Food'', Monthly_Budget = 500\<rparr>,
         \<lparr>Budget_Category = ''Food'', Monthly_Budget = 200\<rparr>]) = [''Food'', ''Food'']"
  by (simp add: merged_eq)

section \<open>Properties of the date filter\<close>

lemma date_le_refl: "date_le a a"
  by (simp add: date_le_def)

lemma date_le_antisym: "date_le a b \<Longrightarrow> date_le b a \<Longrightarrow> a = (b :: pydate)"
  by (auto simp: date_le_def intro: pydate.equality)

lemma date_le_trans: "date_le a b \<Longrightarrow> date_le b c \<Longrightarrow> date_le a c"
  by (auto simp: date_le_def)

lemma date_le_total: "date_le a b \<or> date_le b a"
  by (auto simp: date_le_def)

lemma date_le_lex: "date_le a b \<longleftrightarrow> [year a, month a, day a] \<le> [year b, month b, day b]"
  by (auto simp: date_le_def)

lemma in_range_same_day:
  "in_range d d t = (map_option date_part (Date t) = Some d)"
  by (auto simp: in_range_def date_le_refl split: option.splits dest: date_le_antisym)

lemma in_range_lex:
  "in_range s e t =
     (\<exists>ts. Date t = Some ts \<and>
        [year s, month s, day s] \<le> [year (date_part ts), month (date_part ts), day (date_part ts)] \<and>
        [year (date_part ts), month (date_part ts), day (date_part ts)] \<le> [year e, month e, day e])"
  by (simp add: in_range_def date_le_lex split: option.splits)

lemma df_filtered_dated:
  "t0 \<in> set txns \<Longrightarrow> Date t0 = Some ts0 \<Longrightarrow>
   df_filtered s e txns = Inr (filter (in_range s e) txns)"
  by (auto simp: df_filtered_def list_all_iff)

text \<open>
  C5, as the code has it. On a table in which some row has a date, the date filter
  returns exactly the rows whose calendar date lies between the start and the end date,
  both ends included, in the order of the table and as often as the table has them;
  dates are ordered by year, then month, then day, and a row without a date is not
  among them. With the same date at both ends the filter returns exactly the rows of
  that date. The time of day of a row plays no part: setting the times of day of the
  rows anew selects the same rows.
\<close>

theorem df_filtered_inclusive:
  "t0 \<in> set txns \<and> Date t0 = Some ts0 \<longrightarrow>
   df_filtered start_date end_date txns =
     Inr (filter (\<lambda>t. \<exists>ts. Date t = Some ts \<and>
            [year start_date, month start_date, day start_date] \<le>
              [year (date_part ts), month (date_part ts), day (date_part ts)] \<and>
            [year (date_part ts), month (date_part ts), day (date_part ts)] \<le>
              [year end_date, month end_date, day end_date]) txns) \<and>
   df_filtered d d txns = Inr (filter (\<lambda>t. map_option date_part (Date t) = Some d) txns) \<and>
   df_filtered start_date end_date
       (map (\<lambda>t. t\<lparr>Date := map_option (\<lambda>ts. ts\<lparr>seconds := n t\<rparr>) (Date t)\<rparr>) txns) =
     map_sum id (map (\<lambda>t. t\<lparr>Date := map_option (\<lambda>ts. ts\<lparr>seconds := n t\<rparr>) (Date t)\<rparr>))
       (df_filtered start_date end_date txns)"
proof (intro impI, elim conjE)
  assume t0: "t0 \<in> set txns" "Date t0 = Some ts0"
  let ?f = "\<lambda>t. t\<lparr>Date := map_option (\<lambda>ts. ts\<lparr>seconds := n t\<rparr>) (Date t)\<rparr>"
  have a: "df_filtered start_date end_date txns =
     Inr (filter (\<lambda>t. \<exists>ts. Date t = Some ts \<and>
            [year start_date, month start_date, day start_date] \<le>
              [year (date_part ts), month (date_part ts), day (date_part ts)] \<and>
            [year (date_part ts), month (date_part ts), day (date_part ts)] \<le>
              [year end_date, month end_date, day end_date]) txns)"
    unfolding df_filtered_dated [OF t0] by (simp add: in_range_lex [abs_def])
  have "filter (in_range d d) txns = filter (\<lambda>t. map_option date_part (Date t) = Some d) txns"
    by (rule filter_cong) (simp_all add: in_range_same_day)
  then have b: "df_filtered d d txns = Inr (filter (\<lambda>t. map_option date_part (Date t) = Some d) txns)"
    unfolding df_filtered_dated [OF t0] by (rule arg_cong)
  have f0: "?f t0 \<in> set (map ?f txns)" unfolding set_map using t0(1) by (rule imageI)
  have f1: "Date (?f t0) = Some (ts0\<lparr>seconds := n t0\<rparr>)" using t0(2) by simp
  have r: "in_range start_date end_date (?f t) = in_range start_date end_date t" for t
    by (cases "Date t") (simp_all add: in_range_def)
  have c: "df_filtered start_date end_date (map ?f txns) =
     map_sum id (map ?f) (df_filtered start_date end_date txns)"
    unfolding df_filtered_dated [OF t0] df_filtered_dated [OF f0 f1]
    by (simp add: filter_map o_def r)
  from a b c show
    "df_filtered start_date end_date txns =
     Inr (filter (\<lambda>t. \<exists>ts. Date t = Some ts \<and>
            [year start_date, month start_date, day start_date] \<le>
              [year (date_part ts), month (date_part ts), day (date_part ts)] \<and>
            [year (date_part ts), month (date_part ts), day (date_part ts)] \<le>
              [year end_date, month end_date, day end_date]) txns) \<and>
   df_filtered d d txns = Inr (filter (\<lambda>t. map_option date_part (Date t) = Some d) txns) \<and>
   df_filtered start_date end_date (map ?f txns) =
     map_sum id (map ?f) (df_filtered start_date end_date txns)"
    by blast
qed

text \<open>
  The filter from 1 to 7 October 2025 on the seven sample rows keeps the row of the
  first day, twice, and the row of the last day at 13:45, in the order of the table;
  the filter from 7 to 7 October keeps the last of these alone.
\<close>

theorem df_filtered_inclusive_witness:
  "(expense ''Food'' 12)\<lparr>Date := Some (stamp 2025 9 30 0)\<rparr> \<in> set october \<and>
   Date ((expense ''Food'' 12)\<lparr>Date := Some (stamp 2025 9 30 0)\<rparr>) = Some (stamp 2025 9 30 0) \<and>
   df_filtered \<lparr>year = 2025, month = 10, day = 1\<rparr> \<lparr>year = 2025, month = 10, day = 7\<rparr> october =
     Inr [(expense ''Rent'' 900)\<lparr>Date := Some (stamp 2025 10 1 0)\<rparr>,
          (expense ''Fuel'' 40)\<lparr>Date := Some (stamp 2025 10 7 49500)\<rparr>,
          (expense ''Rent'' 900)\<lparr>Date := Some (stamp 2025 10 1 0)\<rparr>] \<and>
   df_filtered \<lparr>year = 2025, month = 10, day = 7\<rparr> \<lparr>year = 2025, month = 10, day = 7\<rparr> october =
     Inr [(expense ''Fuel'' 40)\<lparr>Date := Some (stamp 2025 10 7 49500)\<rparr>]"
proof -
  let ?s = "\<lparr>year = 2025, month = 10, day = 1\<rparr>"
  let ?e = "\<lparr>year = 2025, month = 10, day = 7\<rparr>"
  let ?t0 = "(expense ''Food'' 12)\<lparr>Date := Some (stamp 2025 9 30 0)\<rparr>"
  have h1: "?t0 \<in> set october" by (simp add: october_def)
  have h2: "Date ?t0 = Some (stamp 2025 9 30 0)" by simp
  from df_filtered_inclusive [of ?t0 october "stamp 2025 9 30 0" ?s ?e ?e] h1 h2
  have concl:
    "df_filtered ?s ?e october =
       Inr (filter (\<lambda>t. \<exists>ts. Date t = Some ts \<and>
              [year ?s, month ?s, day ?s] \<le>
                [year (date_part ts), month (date_part ts), day (date_part ts)] \<and>
              [year (date_part ts), month (date_part ts), day (date_part ts)] \<le>
                [year ?e, month ?e, day ?e]) october) \<and>
     df_filtered ?e ?e october =
       Inr (filter (\<lambda>t. map_option date_part (Date t) = Some ?e) october)"
    by blast
  have e1: "filter (\<lambda>t. \<exists>ts. Date t = Some ts \<and>
              [year ?s, month ?s, day ?s] \<le>
                [year (date_part ts), month (date_part ts), day (date_part ts)] \<and>
              [year (date_part ts), month (date_part ts), day (date_part ts)] \<le>
                [year ?e, month ?e, day ?e]) october =
      [(expense ''Rent'' 900)\<lparr>Date := Some (stamp 2025 10 1 0)\<rparr>,
       (expense ''Fuel'' 40)\<lparr>Date := Some (stamp 2025 10 7 49500)\<rparr>,
       (expense ''Rent'' 900)\<lparr>Date := Some (stamp 2025 10 1 0)\<rparr>]"
    by (simp add: october_def stamp_def expense_def)
  have e2: "filter (\<lambda>t. map_option date_part (Date t) = Some ?e) october =
      [(expense ''Fuel'' 40)\<lparr>Date := Some (stamp 2025 10 7 49500)\<rparr>]"
    by (simp add: october_def stamp_def expense_def)
  from concl have
    "df_filtered ?s ?e october =
       Inr [(expense ''Rent'' 900)\<lparr>Date := Some (stamp 2025 10 1 0)\<rparr>,
            (expense ''Fuel'' 40)\<lparr>Date := Some (stamp 2025 10 7 49500)\<rparr>,
            (expense ''Rent'' 900)\<lparr>Date := Some (stamp 2025 10 1 0)\<rparr>] \<and>
     df_filtered ?e ?e october =
       Inr [(expense ''Fuel'' 40)\<lparr>Date := Some (stamp 2025 10 7 49500)\<rparr>]"
    unfolding e1 e2 .
  with h1 h2 show ?thesis by blast
qed

text \<open>
  C5 as stated fails on a table in which no row has a date: the rows dated 7 October
  are none, and the filter does not return the empty table, it raises.
\<close>

theorem df_filtered_undated_counterexample:
  "df_filtered \<lparr>year = 2025, month = 10, day = 7\<rparr> \<lparr>year = 2025, month = 10, day = 7\<rparr>
     [expense ''Food'' 12] = Inl TypeError \<and>
   filter (\<lambda>t. map_option date_part (Date t) = Some \<lparr>year = 2025, month = 10, day = 7\<rparr>)
     [expense ''Food'' 12] = []"
  by (simp add: df_filtered_def expense_def)

section \<open>Properties of the goal progress\<close>

text \<open>The exponent of a real that lies between two powers of 2, and its double.\<close>

lemma exponent_from_found:
  "e0 \<le> e \<Longrightarrow> nat (e - e0) < n \<Longrightarrow> 2 powi e \<le> a \<Longrightarrow> a < 2 powi (e + 1) \<Longrightarrow>
   exponent_from n e0 a = e"
proof (induction n arbitrary: e0)
  case 0
  then show ?case by simp
next
  case (Suc n)
  show ?case
  proof (cases "e0 = e")
    case True
    with Suc.prems show ?thesis by simp
  next
    case False
    with Suc.prems have lt: "e0 < e" by simp
    then have "(2::real) powi (e0 + 1) \<le> 2 powi e"
      by (intro power_int_increasing) simp_all
    with Suc.prems(3) have "\<not> a < 2 powi (e0 + 1)" by simp
    moreover have "exponent_from n (e0 + 1) a = e"
      using lt Suc.prems by (intro Suc.IH) simp_all
    ultimately show ?thesis by simp
  qed
qed

lemma exponent_eq:
  assumes "2 powi e \<le> \<bar>x\<bar>" "\<bar>x\<bar> < 2 powi (e + 1)" "- 1022 \<le> e" "e \<le> 1023"
  shows "exponent x = e"
  unfolding exponent_def using assms by (intro exponent_from_found) simp_all

lemma fl_eval:
  assumes "x \<noteq> 0" "2 powi e \<le> \<bar>x\<bar>" "\<bar>x\<bar> < 2 powi (e + 1)" "- 1022 \<le> e" "e \<le> 1023"
    and "q = 2 powi (e - 52)"
    and "\<bar>of_int (round_even (x / q)) * q\<bar> < 2 ^ 1024"
  shows "fl x = Fin (of_int (round_even (x / q)) * q)"
  using assms by (simp add: fl_def ulp_def exponent_eq [OF assms(2-5)] Let_def)

text \<open>Rounding keeps the sign.\<close>

lemma ulp_pos: "0 < ulp x"
  by (simp add: ulp_def)

lemma round_even_nonneg: "0 \<le> y \<Longrightarrow> 0 \<le> round_even y"
  by (auto simp: round_even_def Let_def)

lemma round_even_nonpos: "y \<le> 0 \<Longrightarrow> round_even y \<le> 0"
proof -
  assume y: "y \<le> 0"
  show ?thesis
  proof (cases "y - of_int \<lfloor>y\<rfloor> < 1 / 2")
    case True
    with y show ?thesis by (simp add: round_even_def Let_def floor_le_iff)
  next
    case False
    then have "of_int \<lfloor>y\<rfloor> + 1 / 2 \<le> y" by simp
    with y have "of_int \<lfloor>y\<rfloor> < (0::real)" by linarith
    then have "\<lfloor>y\<rfloor> + 1 \<le> 0" by linarith
    moreover from y have "\<lfloor>y\<rfloor> \<le> 0" by (simp add: floor_le_iff)
    ultimately show ?thesis by (simp add: round_even_def Let_def)
  qed
qed

lemma fl_nonneg: "0 \<le> x \<Longrightarrow> fl x = PInf \<or> (\<exists>y. fl x = Fin y \<and> 0 \<le> y)"
proof (cases "x = 0")
  case True
  then show ?thesis by (simp add: fl_def)
next
  case False
  assume "0 \<le> x"
  with False have x: "0 < x" by simp
  then have "0 \<le> x / ulp x" using ulp_pos [of x] by simp
  then have "0 \<le> round_even (x / ulp x)" by (rule round_even_nonneg)
  then have "0 \<le> of_int (round_even (x / ulp x)) * ulp x"
    using ulp_pos [of x] by simp
  with x show ?thesis by (simp add: fl_def Let_def)
qed

lemma fl_nonpos: "x \<le> 0 \<Longrightarrow> fl x = NInf \<or> (\<exists>y. fl x = Fin y \<and> y \<le> 0)"
proof (cases "x = 0")
  case True
  then show ?thesis by (simp add: fl_def)
next
  case False
  assume "x \<le> 0"
  with False have x: "x < 0" by simp
  then have "x / ulp x \<le> 0" using ulp_pos [of x] by (simp add: divide_nonpos_pos)
  then have "round_even (x / ulp x) \<le> 0" by (rule round_even_nonpos)
  then have "of_int (round_even (x / ulp x)) * ulp x \<le> 0"
    using ulp_pos [of x] by (simp add: mult_nonpos_nonneg)
  with x show ?thesis by (simp add: fl_def Let_def)
qed

lemma trunc_0: "trunc 0 = 0"
  by (simp add: trunc_def)

lemma trunc_nonneg: "0 \<le> x \<Longrightarrow> 0 \<le> trunc x"
  by (simp add: trunc_def)

lemma trunc_le_100: "x \<le> 100 \<Longrightarrow> trunc x \<le> 100"
  by (auto simp: trunc_def floor_le_iff ceiling_le_iff)

lemma py_min_100:
  "py_min (Fin 100) x = (case x of Fin v \<Rightarrow> Fin (min 100 v) | NInf \<Rightarrow> NInf | _ \<Rightarrow> Fin 100)"
  by (cases x) (auto simp: py_min_def min_def)

lemma py_int_not_zero_division: "py_int x \<noteq> Inl ZeroDivisionError"
  by (cases x) simp_all

lemma fdiv_positive_divisor:
  "flt (Fin 0) b \<Longrightarrow> \<exists>q. fdiv a b = Inr q"
  by (cases b; cases a) simp_all

lemma clamp_le_100: "py_int (py_min (Fin 100) x) = Inr p \<Longrightarrow> p \<le> 100"
  by (cases x) (auto simp: py_min_100 trunc_le_100)

lemma clamp_nonneg:
  "x = PInf \<or> x = NaN \<or> (\<exists>v. x = Fin v \<and> 0 \<le> v) \<Longrightarrow>
   \<exists>p. py_int (py_min (Fin 100) x) = Inr p \<and> 0 \<le> p \<and> p \<le> 100"
  by (cases x) (auto simp: py_min_100 trunc_le_100 trunc_nonneg)

lemma fmul_100_nonneg:
  assumes "q = PInf \<or> q = NaN \<or> (\<exists>v. q = Fin v \<and> 0 \<le> v)"
  shows "fmul q (Fin 100) = PInf \<or> fmul q (Fin 100) = NaN \<or>
         (\<exists>v. fmul q (Fin 100) = Fin v \<and> 0 \<le> v)"
proof (cases q)
  case (Fin v)
  with assms have "0 \<le> v * 100" by simp
  from fl_nonneg [OF this] Fin show ?thesis by auto
qed (use assms in \<open>simp_all add: inf_of_sign_def\<close>)

lemma fdiv_nonneg:
  assumes "a = PInf \<or> (\<exists>c. a = Fin c \<and> 0 \<le> c)" and "flt (Fin 0) b" and "fdiv a b = Inr q"
  shows "q = PInf \<or> q = NaN \<or> (\<exists>v. q = Fin v \<and> 0 \<le> v)"
proof (cases b)
  case (Fin t)
  with assms(2) have t: "0 < t" by simp
  show ?thesis
  proof (cases a)
    case a: (Fin c)
    with assms(1) t have "0 \<le> c / t" by simp
    from fl_nonneg [OF this] assms(3) Fin a t show ?thesis by auto
  next
    case PInf
    with assms(3) Fin t show ?thesis by (simp add: inf_of_sign_def)
  qed (use assms in simp_all)
next
  case PInf
  with assms show ?thesis by (cases a) auto
qed (use assms in simp_all)

lemma goal_pct_nonpositive_target: "Target_Amount r \<le> 0 \<Longrightarrow> goal_pct r = Inr 0"
proof -
  assume "Target_Amount r \<le> 0"
  from fl_nonpos [OF this] have "\<not> flt (Fin 0) (fl (Target_Amount r))" by auto
  then show ?thesis by (simp add: goal_pct_def Let_def py_min_100 trunc_0)
qed

lemma goal_pct_cases:
  "goal_pct r = Inr 0 \<or>
   (flt (Fin 0) (fl (Target_Amount r)) \<and>
    (\<exists>q. fdiv (fl (Current_Saved r)) (fl (Target_Amount r)) = Inr q \<and>
         goal_pct r = py_int (py_min (Fin 100) (fmul q (Fin 100)))))"
proof (cases "flt (Fin 0) (fl (Target_Amount r))")
  case True
  from fdiv_positive_divisor [OF this] obtain q
    where "fdiv (fl (Current_Saved r)) (fl (Target_Amount r)) = Inr q" by blast
  with True show ?thesis by (simp add: goal_pct_def Let_def)
next
  case False
  then show ?thesis by (simp add: goal_pct_def Let_def py_min_100 trunc_0)
qed

lemma goal_pct_finite:
  "fl (Target_Amount r) = Fin t \<Longrightarrow> 0 < t \<Longrightarrow> fl (Current_Saved r) = Fin c \<Longrightarrow>
   fl (c / t) = Fin q \<Longrightarrow> fl (q * 100) = Fin v \<Longrightarrow> goal_pct r = Inr (trunc (min 100 v))"
  by (simp add: goal_pct_def Let_def py_min_100)

text \<open>The doubles of the sample goals.\<close>

lemma fl_100: "fl 100 = Fin 100"
proof -
  have "fl 100 = Fin (of_int (round_even (100 / (1 / 2 ^ 46))) * (1 / 2 ^ 46))"
    by (rule fl_eval [where e = 6]) (simp_all add: power_int_minus round_even_def Let_def)
  then show ?thesis by (simp add: round_even_def Let_def)
qed

lemma fl_29: "fl 29 = Fin 29"
proof -
  have "fl 29 = Fin (of_int (round_even (29 / (1 / 2 ^ 48))) * (1 / 2 ^ 48))"
    by (rule fl_eval [where e = 4]) (simp_all add: power_int_minus round_even_def Let_def)
  then show ?thesis by (simp add: round_even_def Let_def)
qed

lemma fl_1: "fl 1 = Fin 1"
proof -
  have "fl 1 = Fin (of_int (round_even (1 / (1 / 2 ^ 52))) * (1 / 2 ^ 52))"
    by (rule fl_eval [where e = 0]) (simp_all add: power_int_minus round_even_def Let_def)
  then show ?thesis by (simp add: round_even_def Let_def)
qed

lemma fl_3: "fl 3 = Fin 3"
proof -
  have "fl 3 = Fin (of_int (round_even (3 / (1 / 2 ^ 51))) * (1 / 2 ^ 51))"
    by (rule fl_eval [where e = 1]) (simp_all add: power_int_minus round_even_def Let_def)
  then show ?thesis by (simp add: round_even_def Let_def)
qed

lemma fl_29_100: "fl (29 / 100) = Fin (5224175567749775 / 2 ^ 54)"
proof -
  have "fl (29 / 100) = Fin (of_int (round_even (29 / 100 / (1 / 2 ^ 54))) * (1 / 2 ^ 54))"
    by (rule fl_eval [where e = "- 2"]) (simp_all add: power_int_minus round_even_def Let_def)
  then show ?thesis by (simp add: round_even_def Let_def)
qed

lemma fl_29_100_times_100:
  "fl (5224175567749775 / 2 ^ 54 * 100) = Fin (8162774324609023 / 2 ^ 48)"
proof -
  have "fl (5224175567749775 / 2 ^ 54 * 100) =
        Fin (of_int (round_even (5224175567749775 / 2 ^ 54 * 100 / (1 / 2 ^ 48))) * (1 / 2 ^ 48))"
    by (rule fl_eval [where e = 4]) (simp_all add: power_int_minus round_even_def Let_def)
  then show ?thesis by (simp add: round_even_def Let_def)
qed

lemma fl_1_3: "fl (1 / 3) = Fin (6004799503160661 / 2 ^ 54)"
proof -
  have "fl (1 / 3) = Fin (of_int (round_even (1 / 3 / (1 / 2 ^ 54))) * (1 / 2 ^ 54))"
    by (rule fl_eval [where e = "- 2"]) (simp_all add: power_int_minus round_even_def Let_def)
  then show ?thesis by (simp add: round_even_def Let_def)
qed

lemma fl_1_3_times_100:
  "fl (6004799503160661 / 2 ^ 54 * 100) = Fin (4691249611844266 / 2 ^ 47)"
proof -
  have "fl (6004799503160661 / 2 ^ 54 * 100) =
        Fin (of_int (round_even (6004799503160661 / 2 ^ 54 * 100 / (1 / 2 ^ 47))) * (1 / 2 ^ 47))"
    by (rule fl_eval [where e = 5]) (simp_all add: power_int_minus round_even_def Let_def)
  then show ?thesis by (simp add: round_even_def Let_def)
qed

text \<open>
  C8, as the code has it. The progress of a goal is never a division error. It is 0
  when the target is at most 0. With a positive target, when the quotient of the two
  doubles and its product with 100 are finite doubles, the progress is the integer part
  (the truncation toward zero) of that product clamped to the upper bound 100: the
  quotient is rounded to a double, and so is the product. A progress is at most 100,
  and when the saved amount is not negative there is a progress and it is at least 0.
\<close>

theorem goal_pct_value:
  "goal_pct r \<noteq> Inl ZeroDivisionError \<and>
   (Target_Amount r \<le> 0 \<longrightarrow> goal_pct r = Inr 0) \<and>
   (fl (Target_Amount r) = Fin t \<and> 0 < t \<and> fl (Current_Saved r) = Fin c \<and>
    fl (c / t) = Fin q \<and> fl (q * 100) = Fin v \<longrightarrow>
      goal_pct r = Inr (trunc (min 100 v))) \<and>
   (goal_pct r = Inr p \<longrightarrow> p \<le> 100) \<and>
   (0 \<le> Current_Saved r \<longrightarrow> (\<exists>n. goal_pct r = Inr n \<and> 0 \<le> n \<and> n \<le> 100))"
proof -
  have a: "goal_pct r \<noteq> Inl ZeroDivisionError"
    using goal_pct_cases [of r] py_int_not_zero_division by auto
  have b: "goal_pct r = Inr 0" if "Target_Amount r \<le> 0"
    using that by (rule goal_pct_nonpositive_target)
  have c: "goal_pct r = Inr (trunc (min 100 v))"
    if "fl (Target_Amount r) = Fin t" "0 < t" "fl (Current_Saved r) = Fin c"
       "fl (c / t) = Fin q" "fl (q * 100) = Fin v"
    using that by (rule goal_pct_finite)
  have d: "p \<le> 100" if "goal_pct r = Inr p"
    using goal_pct_cases [of r] that clamp_le_100 by auto
  have e: "\<exists>n. goal_pct r = Inr n \<and> 0 \<le> n \<and> n \<le> 100" if "0 \<le> Current_Saved r"
  proof -
    from goal_pct_cases [of r] show ?thesis
    proof
      assume "goal_pct r = Inr 0"
      then show ?thesis by simp
    next
      assume "flt (Fin 0) (fl (Target_Amount r)) \<and>
        (\<exists>q. fdiv (fl (Current_Saved r)) (fl (Target_Amount r)) = Inr q \<and>
             goal_pct r = py_int (py_min (Fin 100) (fmul q (Fin 100))))"
      then obtain q where pos: "flt (Fin 0) (fl (Target_Amount r))"
        and q: "fdiv (fl (Current_Saved r)) (fl (Target_Amount r)) = Inr q"
        and g: "goal_pct r = py_int (py_min (Fin 100) (fmul q (Fin 100)))" by blast
      from fl_nonneg [OF that] have "fl (Current_Saved r) = PInf \<or>
        (\<exists>c. fl (Current_Saved r) = Fin c \<and> 0 \<le> c)" .
      from fdiv_nonneg [OF this pos q] have "q = PInf \<or> q = NaN \<or> (\<exists>v. q = Fin v \<and> 0 \<le> v)" .
      from clamp_nonneg [OF fmul_100_nonneg [OF this]] g show ?thesis by simp
    qed
  qed
  from a b c d e show ?thesis by blast
qed

text \<open>
  The scenario of the specification: a target of 0 gives 0, not an error. And 29 saved
  of a target of 100 gives 28: the double nearest to 0.29, times 100, is a double just
  below 29.
\<close>

theorem goal_pct_value_witness:
  "Target_Amount \<lparr>Goal_Name = ''Trip'', Target_Amount = 0, Current_Saved = 250\<rparr> \<le> (0::real) \<and>
   goal_pct \<lparr>Goal_Name = ''Trip'', Target_Amount = 0, Current_Saved = 250\<rparr> = Inr 0 \<and>
   fl (Target_Amount \<lparr>Goal_Name = ''Car'', Target_Amount = 100, Current_Saved = 29\<rparr>) = Fin 100 \<and>
   (0::real) < 100 \<and>
   fl (Current_Saved \<lparr>Goal_Name = ''Car'', Target_Amount = 100, Current_Saved = 29\<rparr>) = Fin 29 \<and>
   fl (29 / 100) = Fin (5224175567749775 / 2 ^ 54) \<and>
   fl (5224175567749775 / 2 ^ 54 * 100) = Fin (8162774324609023 / 2 ^ 48) \<and>
   (0::real) \<le> Current_Saved \<lparr>Goal_Name = ''Car'', Target_Amount = 100, Current_Saved = 29\<rparr> \<and>
   goal_pct \<lparr>Goal_Name = ''Car'', Target_Amount = 100, Current_Saved = 29\<rparr> = Inr 28 \<and>
   (28::int) \<le> 100"
proof -
  let ?r0 = "\<lparr>Goal_Name = ''Trip'', Target_Amount = 0::real, Current_Saved = 250\<rparr>"
  let ?r1 = "\<lparr>Goal_Name = ''Car'', Target_Amount = 100::real, Current_Saved = 29\<rparr>"
  have h0: "Target_Amount ?r0 \<le> 0" by simp
  have h1: "fl (Target_Amount ?r1) = Fin 100" by (simp add: fl_100)
  have h2: "(0::real) < 100" by simp
  have h3: "fl (Current_Saved ?r1) = Fin 29" by (simp add: fl_29)
  note h4 = fl_29_100
  note h5 = fl_29_100_times_100
  have h6: "(0::real) \<le> Current_Saved ?r1" by simp
  from goal_pct_value [of ?r0] h0 have c0: "goal_pct ?r0 = Inr 0" by blast
  from goal_pct_value [of ?r1 100 29 "5224175567749775 / 2 ^ 54" "8162774324609023 / 2 ^ 48"]
    h1 h2 h3 h4 h5
  have c1: "goal_pct ?r1 = Inr (trunc (min 100 (8162774324609023 / 2 ^ 48)))" by blast
  have t: "trunc (min 100 (8162774324609023 / 2 ^ 48)) = 28"
    by (simp add: trunc_def min_def floor_eq_iff)
  from c1 have c2: "goal_pct ?r1 = Inr 28" unfolding t .
  from goal_pct_value [of ?r1 _ _ _ _ 28] c2 have c3: "(28::int) \<le> 100" by blast
  from h0 c0 h1 h2 h3 h4 h5 h6 c2 c3 show ?thesis by blast
qed

text \<open>
  C8 as stated fails: with 1 saved of a target of 3 the progress is 33, which is
  neither \<open>1 / 3 * 100\<close> nor the double the code computes for it.
\<close>

theorem goal_pct_truncates_counterexample:
  "goal_pct \<lparr>Goal_Name = ''Trip'', Target_Amount = 3, Current_Saved = 1\<rparr> = Inr 33 \<and>
   real_of_int 33 \<noteq> min 100 (1 / 3 * 100) \<and>
   real_of_int 33 \<noteq> min 100 (4691249611844266 / 2 ^ 47)"
proof -
  have "goal_pct \<lparr>Goal_Name = ''Trip'', Target_Amount = 3, Current_Saved = 1\<rparr> =
        Inr (trunc (min 100 (4691249611844266 / 2 ^ 47)))"
  proof (rule goal_pct_finite)
    show "fl (Target_Amount \<lparr>Goal_Name = ''Trip'', Target_Amount = 3, Current_Saved = 1\<rparr>) = Fin 3"
      by (simp add: fl_3)
    show "fl (Current_Saved \<lparr>Goal_Name = ''Trip'', Target_Amount = 3, Current_Saved = 1\<rparr>) = Fin 1"
      by (simp add: fl_1)
    show "fl (1 / 3) = Fin (6004799503160661 / 2 ^ 54)" by (rule fl_1_3)
    show "fl (6004799503160661 / 2 ^ 54 * 100) = Fin (4691249611844266 / 2 ^ 47)"
      by (rule fl_1_3_times_100)
  qed simp
  moreover have "trunc (min 100 (4691249611844266 / 2 ^ 47)) = 33"
    by (simp add: trunc_def min_def floor_eq_iff)
  ultimately show ?thesis by simp
qed

text \<open>
  Truncating the quotient of the reals would give another progress: 29, where the code
  gives 28.
\<close>

lemma goal_pct_29_of_100:
  "goal_pct \<lparr>Goal_Name = ''Car'', Target_Amount = 100, Current_Saved = 29\<rparr> = Inr 28 \<and>
   \<lfloor>min 100 (29 / 100 * 100 :: real)\<rfloor> = 29"
proof -
  have "goal_pct \<lparr>Goal_Name = ''Car'', Target_Amount = 100, Current_Saved = 29\<rparr> =
        Inr (trunc (min 100 (8162774324609023 / 2 ^ 48)))"
  proof (rule goal_pct_finite)
    show "fl (Target_Amount \<lparr>Goal_Name = ''Car'', Target_Amount = 100, Current_Saved = 29\<rparr>) = Fin 100"
      by (simp add: fl_100)
    show "fl (Current_Saved \<lparr>Goal_Name = ''Car'', Target_Amount = 100, Current_Saved = 29\<rparr>) = Fin 29"
      by (simp add: fl_29)
    show "fl (29 / 100) = Fin (5224175567749775 / 2 ^ 54)" by (rule fl_29_100)
    show "fl (5224175567749775 / 2 ^ 54 * 100) = Fin (8162774324609023 / 2 ^ 48)"
      by (rule fl_29_100_times_100)
  qed simp
  moreover have "trunc (min 100 (8162774324609023 / 2 ^ 48)) = 28"
    by (simp add: trunc_def min_def floor_eq_iff)
  ultimately show ?thesis by simp
qed

text \<open>A real at or below \<open>- (2 ^ 1024)\<close> has the negative infinity for its double.\<close>

lemma exponent_from_exhausted:
  "2 powi (e0 + int n) \<le> a \<Longrightarrow> exponent_from n e0 a = e0 + int n"
proof (induction n arbitrary: e0)
  case 0
  then show ?case by simp
next
  case (Suc n)
  have "(2::real) powi (e0 + 1) \<le> 2 powi (e0 + int (Suc n))"
    by (intro power_int_increasing) simp_all
  with Suc.prems have "\<not> a < 2 powi (e0 + 1)" by simp
  moreover have "exponent_from n (e0 + 1) a = e0 + 1 + int n"
    using Suc.prems by (intro Suc.IH) (simp add: add.assoc)
  ultimately show ?case by simp
qed

lemma round_even_le: "z \<le> of_int n \<Longrightarrow> round_even z \<le> n"
proof -
  assume z: "z \<le> of_int n"
  then have f: "\<lfloor>z\<rfloor> \<le> n" by (simp add: floor_le_iff)
  show ?thesis
  proof (cases "z = of_int \<lfloor>z\<rfloor>")
    case True
    then have "z - of_int \<lfloor>z\<rfloor> < 1 / 2" by simp
    with f show ?thesis by (simp add: round_even_def Let_def)
  next
    case False
    then have "of_int \<lfloor>z\<rfloor> < z" using of_int_floor_le [of z] by linarith
    with z have "of_int \<lfloor>z\<rfloor> < (of_int n :: real)" by linarith
    then have "\<lfloor>z\<rfloor> + 1 \<le> n" by linarith
    with f show ?thesis by (simp add: round_even_def Let_def)
  qed
qed

lemma fl_overflow_negative: "x \<le> - (2 ^ 1024) \<Longrightarrow> fl x = NInf"
proof -
  assume x: "x \<le> - (2 ^ 1024)"
  then have a: "2 powi (- 1022 + int 2046) \<le> \<bar>x\<bar>" by simp
  have e: "exponent x = 1024"
    unfolding exponent_def using exponent_from_exhausted [OF a] by simp
  then have u: "ulp x = 2 ^ 972" by (simp add: ulp_def)
  from x have "x / 2 ^ 972 \<le> of_int (- (2 ^ 52))" by (simp add: field_simps)
  then have "round_even (x / 2 ^ 972) \<le> - (2 ^ 52)" by (rule round_even_le)
  then have "real_of_int (round_even (x / 2 ^ 972)) \<le> - (2 ^ 52)"
    by (metis of_int_le_iff of_int_minus of_int_numeral of_int_power)
  then have "real_of_int (round_even (x / 2 ^ 972)) * 2 ^ 972 \<le> - (2 ^ 52) * 2 ^ 972"
    by (simp del: of_int_le_iff)
  then have "real_of_int (round_even (x / 2 ^ 972)) * 2 ^ 972 \<le> - (2 ^ 1024)" by simp
  then have "2 ^ 1024 \<le> \<bar>real_of_int (round_even (x / 2 ^ 972)) * 2 ^ 972\<bar>" by linarith
  moreover from x have "x < 0" "x \<noteq> 0"
    using zero_less_power [of "2::real" 1024] by linarith+
  ultimately show ?thesis by (simp add: fl_def u Let_def)
qed

text \<open>
  With a positive target, a saved amount so far below zero that its double is the
  negative infinity makes the product infinite, and \<^verbatim>\<open>int\<close> of an infinity raises: the
  progress is then an error, though not a division error.
\<close>

lemma goal_pct_overflow:
  "goal_pct \<lparr>Goal_Name = ''Debt'', Target_Amount = 1, Current_Saved = - (2 ^ 1024)\<rparr> =
   Inl OverflowError"
proof -
  have "fl (- (2 ^ 1024)) = NInf" by (rule fl_overflow_negative) simp
  then show ?thesis by (simp add: goal_pct_def Let_def fl_1 inf_of_sign_def py_min_def)
qed

section \<open>Properties of the normaliser\<close>

text \<open>
  C9 on the code: a Transactions table that loads empty is given six columns; the
  Payer column, the seventh value of every row the form appends (line 154) and the
  seventh column of the sheet, is not among them.
\<close>

theorem empty_transactions_schema_without_payer:
  "normalize_transactions lib (DataFrame transactions_header []) =
     Inr \<lparr>columns = [''Date'', ''Category'', ''Description'', ''Amount'', ''Payment Method'',
                     ''Notes''],
          rows = []\<rparr> \<and>
   ''Payer'' \<notin> set [''Date'', ''Category'', ''Description'', ''Amount'', ''Payment Method'',
                     ''Notes''] \<and>
   ''Payer'' \<in> set transactions_header"
  by (simp add: normalize_transactions_def DataFrame_def df_empty_def transactions_header_def)

text \<open>The Budgets and Goals tables that load empty are given their full schemas.\<close>

lemma empty_budgets_schema:
  "df_empty df \<Longrightarrow>
   normalize_budgets df = \<lparr>columns = [''Category'', ''Monthly Budget''], rows = []\<rparr>"
  by (simp add: normalize_budgets_def)

lemma empty_goals_schema:
  "df_empty df \<Longrightarrow>
   normalize_goals df =
     \<lparr>columns = [''Goal Name'', ''Target Amount'', ''Current Saved''], rows = []\<rparr>"
  by (simp add: normalize_goals_def)

lemma DataFrame_no_records_empty: "df_empty (DataFrame keys [])"
  by (simp add: DataFrame_def df_empty_def)

lemma convert_listlike_Inl:
  "(\<exists>e. convert_listlike lib format cells = Inl e) \<longleftrightarrow>
   (\<exists>s. s \<in> set cells \<and> \<not> is_null lib s \<and> parse_text lib format s = None)"
  by (induction cells) (auto split: sum.splits option.splits)

lemma convert_listlike_Inr:
  "convert_listlike lib format cells = Inr ds \<Longrightarrow>
   ds = map (\<lambda>s. if is_null lib s then None else parse_text lib format s) cells"
  by (induction cells arbitrary: ds) (auto split: sum.splits option.splits if_splits)

lemma coerce_value:
  "fillna 0 (to_numeric c) = (case c of Numeric x \<Rightarrow> x | Text s \<Rightarrow> 0)"
  by (simp add: fillna_def to_numeric_def split: num_cell.splits)

lemma is_null_blank: "is_null lib []"
  by (simp add: is_null_def)

text \<open>
  C7, as the code has it. A Transactions table with rows fails to normalise, as a whole,
  exactly when one of its Date cells holds a text that is not null and that the parser
  cannot read with the format of the batch (the format guessed from the first Date cell
  that is not null, or none). A blank Date cell is no failure: the row is kept, with a
  missing timestamp. When normalisation succeeds every row is kept, in its place, with
  its other fields unchanged; and in every table a numeric cell that cannot be read
  becomes 0.
\<close>

theorem normalize_error_policy:
  "(\<not> df_empty df \<longrightarrow>
      ((\<exists>e. normalize_transactions lib df = Inl e) \<longleftrightarrow>
       (\<exists>s. s \<in> Date ` set (rows df) \<and> \<not> is_null lib s \<and>
            parse_text lib (guess_datetime_format_for_array lib (map Date (rows df))) s = None))) \<and>
   (\<not> df_empty df \<and> normalize_transactions lib df = Inr ndf \<and> i < length (rows df) \<longrightarrow>
      length (rows ndf) = length (rows df) \<and>
      Date (rows ndf ! i) =
        (if is_null lib (Date (rows df ! i)) then None
         else parse_text lib (guess_datetime_format_for_array lib (map Date (rows df)))
                (Date (rows df ! i))) \<and>
      (Date (rows df ! i) = [] \<longrightarrow> Date (rows ndf ! i) = None) \<and>
      Amount (rows ndf ! i) =
        (case Amount (rows df ! i) of Numeric x \<Rightarrow> x | Text s \<Rightarrow> 0) \<and>
      Category (rows ndf ! i) = Category (rows df ! i) \<and>
      Description (rows ndf ! i) = Description (rows df ! i) \<and>
      Payment_Method (rows ndf ! i) = Payment_Method (rows df ! i) \<and>
      Notes (rows ndf ! i) = Notes (rows df ! i) \<and>
      Payer (rows ndf ! i) = Payer (rows df ! i)) \<and>
   (\<not> df_empty bdf \<and> j < length (rows bdf) \<longrightarrow>
      length (rows (normalize_budgets bdf)) = length (rows bdf) \<and>
      Budget_Category (rows (normalize_budgets bdf) ! j) = Budget_Category (rows bdf ! j) \<and>
      Monthly_Budget (rows (normalize_budgets bdf) ! j) =
        (case Monthly_Budget (rows bdf ! j) of Numeric x \<Rightarrow> x | Text s \<Rightarrow> 0)) \<and>
   (\<not> df_empty gdf \<and> k < length (rows gdf) \<longrightarrow>
      length (rows (normalize_goals gdf)) = length (rows gdf) \<and>
      Goal_Name (rows (normalize_goals gdf) ! k) = Goal_Name (rows gdf ! k) \<and>
      Target_Amount (rows (normalize_goals gdf) ! k) =
        (case Target_Amount (rows gdf ! k) of Numeric x \<Rightarrow> x | Text s \<Rightarrow> 0) \<and>
      Current_Saved (rows (normalize_goals gdf) ! k) =
        (case Current_Saved (rows gdf ! k) of Numeric x \<Rightarrow> x | Text s \<Rightarrow> 0))"
proof -
  let ?fmt = "guess_datetime_format_for_array lib (map Date (rows df))"
  have a: "(\<exists>e. normalize_transactions lib df = Inl e) \<longleftrightarrow>
       (\<exists>s. s \<in> Date ` set (rows df) \<and> \<not> is_null lib s \<and> parse_text lib ?fmt s = None)"
    if "\<not> df_empty df"
  proof -
    have "(\<exists>e. normalize_transactions lib df = Inl e) \<longleftrightarrow>
          (\<exists>e. to_datetime lib (map Date (rows df)) = Inl e)"
      using that by (auto simp: normalize_transactions_def split: sum.splits)
    then show ?thesis
      unfolding to_datetime_def convert_listlike_Inl by simp
  qed
  have b: "length (rows ndf) = length (rows df) \<and>
      Date (rows ndf ! i) =
        (if is_null lib (Date (rows df ! i)) then None
         else parse_text lib ?fmt (Date (rows df ! i))) \<and>
      (Date (rows df ! i) = [] \<longrightarrow> Date (rows ndf ! i) = None) \<and>
      Amount (rows ndf ! i) =
        (case Amount (rows df ! i) of Numeric x \<Rightarrow> x | Text s \<Rightarrow> 0) \<and>
      Category (rows ndf ! i) = Category (rows df ! i) \<and>
      Description (rows ndf ! i) = Description (rows df ! i) \<and>
      Payment_Method (rows ndf ! i) = Payment_Method (rows df ! i) \<and>
      Notes (rows ndf ! i) = Notes (rows df ! i) \<and>
      Payer (rows ndf ! i) = Payer (rows df ! i)"
    if "\<not> df_empty df" "normalize_transactions lib df = Inr ndf" "i < length (rows df)"
  proof -
    from that(1,2) obtain ds where ds: "to_datetime lib (map Date (rows df)) = Inr ds"
      and ndf: "rows ndf = map (\<lambda>(d, r).
                     \<lparr>Date = d, Category = Category r, Description = Description r,
                      Amount = fillna 0 (to_numeric (Amount r)),
                      Payment_Method = Payment_Method r, Notes = Notes r, Payer = Payer r\<rparr>)
                    (zip ds (rows df))"
      by (auto simp: normalize_transactions_def split: sum.splits)
    from convert_listlike_Inr [OF ds [unfolded to_datetime_def]]
    have dsv: "ds = map (\<lambda>s. if is_null lib s then None else parse_text lib ?fmt s)
                      (map Date (rows df))" .
    then have len: "length ds = length (rows df)" by simp
    with that(3) show ?thesis
      by (simp add: ndf coerce_value dsv is_null_blank)
  qed
  have c: "length (rows (normalize_budgets bdf)) = length (rows bdf) \<and>
      Budget_Category (rows (normalize_budgets bdf) ! j) = Budget_Category (rows bdf ! j) \<and>
      Monthly_Budget (rows (normalize_budgets bdf) ! j) =
        (case Monthly_Budget (rows bdf ! j) of Numeric x \<Rightarrow> x | Text s \<Rightarrow> 0)"
    if "\<not> df_empty bdf" "j < length (rows bdf)"
    using that by (simp add: normalize_budgets_def coerce_value)
  have d: "length (rows (normalize_goals gdf)) = length (rows gdf) \<and>
      Goal_Name (rows (normalize_goals gdf) ! k) = Goal_Name (rows gdf ! k) \<and>
      Target_Amount (rows (normalize_goals gdf) ! k) =
        (case Target_Amount (rows gdf ! k) of Numeric x \<Rightarrow> x | Text s \<Rightarrow> 0) \<and>
      Current_Saved (rows (normalize_goals gdf) ! k) =
        (case Current_Saved (rows gdf ! k) of Numeric x \<Rightarrow> x | Text s \<Rightarrow> 0)"
    if "\<not> df_empty gdf" "k < length (rows gdf)"
    using that by (simp add: normalize_goals_def coerce_value)
  from a b c d show ?thesis by blast
qed

lemmas normalize_eval =
  normalize_transactions_def DataFrame_def df_empty_def transactions_header_def raw_expense_def
  expense_def fillna_def to_numeric_def to_datetime_def guess_datetime_format_for_array_def
  is_null_def parse_text_def sample_parser_def

text \<open>
  A Transactions table of two rows, one with an unreadable amount and one with a blank
  date, a Budgets row and a Goals row with unreadable numbers: all rows are kept, with
  0 for those numbers and no timestamp for the blank date.
\<close>

theorem normalize_error_policy_witness:
  "\<not> df_empty \<lparr>columns = transactions_header,
               rows = [raw_expense ''2025-10-07'' ''Food'' (Text ''n/a''),
                       raw_expense [] ''Rent'' (Numeric 900)]\<rparr> \<and>
   normalize_transactions sample_parser
     \<lparr>columns = transactions_header,
      rows = [raw_expense ''2025-10-07'' ''Food'' (Text ''n/a''),
              raw_expense [] ''Rent'' (Numeric 900)]\<rparr> =
     Inr \<lparr>columns = transactions_header,
          rows = [(expense ''Food'' 0)\<lparr>Date := Some (stamp 2025 10 7 0)\<rparr>,
                  expense ''Rent'' 900]\<rparr> \<and>
   Date ([raw_expense ''2025-10-07'' ''Food'' (Text ''n/a''),
          raw_expense [] ''Rent'' (Numeric 900)] ! 1) = [] \<and>
   Date ([(expense ''Food'' 0)\<lparr>Date := Some (stamp 2025 10 7 0)\<rparr>, expense ''Rent'' 900] ! 1) = None \<and>
   Amount ([(expense ''Food'' 0)\<lparr>Date := Some (stamp 2025 10 7 0)\<rparr>, expense ''Rent'' 900] ! 0) = 0 \<and>
   \<not> df_empty \<lparr>columns = budgets_header,
               rows = [\<lparr>Budget_Category = ''Food'', Monthly_Budget = Text ''abc''\<rparr>]\<rparr> \<and>
   \<not> df_empty \<lparr>columns = goals_header,
               rows = [\<lparr>Goal_Name = ''Trip'', Target_Amount = Text [],
                        Current_Saved = Numeric 5\<rparr>]\<rparr> \<and>
   length (rows (normalize_budgets
     \<lparr>columns = budgets_header,
      rows = [\<lparr>Budget_Category = ''Food'', Monthly_Budget = Text ''abc''\<rparr>]\<rparr>)) = 1 \<and>
   Monthly_Budget (rows (normalize_budgets
     \<lparr>columns = budgets_header,
      rows = [\<lparr>Budget_Category = ''Food'', Monthly_Budget = Text ''abc''\<rparr>]\<rparr>) ! 0) = 0 \<and>
   length (rows (normalize_goals
     \<lparr>columns = goals_header,
      rows = [\<lparr>Goal_Name = ''Trip'', Target_Amount = Text [],
               Current_Saved = Numeric 5\<rparr>]\<rparr>)) = 1 \<and>
   Target_Amount (rows (normalize_goals
     \<lparr>columns = goals_header,
      rows = [\<lparr>Goal_Name = ''Trip'', Target_Amount = Text [],
               Current_Saved = Numeric 5\<rparr>]\<rparr>) ! 0) = 0 \<and>
   Current_Saved (rows (normalize_goals
     \<lparr>columns = goals_header,
      rows = [\<lparr>Goal_Name = ''Trip'', Target_Amount = Text [],
               Current_Saved = Numeric 5\<rparr>]\<rparr>) ! 0) = 5"
proof -
  let ?raw = "[raw_expense ''2025-10-07'' ''Food'' (Text ''n/a''),
               raw_expense [] ''Rent'' (Numeric 900)]"
  let ?norm = "[(expense ''Food'' 0)\<lparr>Date := Some (stamp 2025 10 7 0)\<rparr>, expense ''Rent'' 900]"
  let ?df = "\<lparr>columns = transactions_header, rows = ?raw\<rparr>"
  let ?ndf = "\<lparr>columns = transactions_header, rows = ?norm\<rparr>"
  let ?bdf = "\<lparr>columns = budgets_header,
               rows = [\<lparr>Budget_Category = ''Food'', Monthly_Budget = Text ''abc''\<rparr>]\<rparr>"
  let ?gdf = "\<lparr>columns = goals_header,
               rows = [\<lparr>Goal_Name = ''Trip'', Target_Amount = Text [],
                        Current_Saved = Numeric 5\<rparr>]\<rparr>"
  have h1: "\<not> df_empty ?df"
    by (simp add: df_empty_def transactions_header_def)
  have h2: "normalize_transactions sample_parser ?df = Inr ?ndf"
    by (simp add: normalize_eval)
  have h3: "(1::nat) < length (rows ?df)" by simp
  have h3': "(0::nat) < length (rows ?df)" by simp
  have h4: "\<not> df_empty ?bdf" by (simp add: df_empty_def budgets_header_def)
  have h5: "(0::nat) < length (rows ?bdf)" by simp
  have h6: "\<not> df_empty ?gdf" by (simp add: df_empty_def goals_header_def)
  have h7: "(0::nat) < length (rows ?gdf)" by simp
  have h8: "Date (rows ?df ! 1) = []" by (simp add: raw_expense_def)
  from normalize_error_policy [of ?df sample_parser ?ndf 1 ?bdf 0 ?gdf 0] h1 h2 h3 h4 h5 h6 h7 h8
  have concl:
    "Date (rows ?ndf ! 1) = None \<and>
     length (rows (normalize_budgets ?bdf)) = length (rows ?bdf) \<and>
     Monthly_Budget (rows (normalize_budgets ?bdf) ! 0) =
       (case Monthly_Budget (rows ?bdf ! 0) of Numeric x \<Rightarrow> x | Text s \<Rightarrow> 0) \<and>
     length (rows (normalize_goals ?gdf)) = length (rows ?gdf) \<and>
     Target_Amount (rows (normalize_goals ?gdf) ! 0) =
       (case Target_Amount (rows ?gdf ! 0) of Numeric x \<Rightarrow> x | Text s \<Rightarrow> 0) \<and>
     Current_Saved (rows (normalize_goals ?gdf) ! 0) =
       (case Current_Saved (rows ?gdf ! 0) of Numeric x \<Rightarrow> x | Text s \<Rightarrow> 0)"
    by blast
  from normalize_error_policy [of ?df sample_parser ?ndf 0] h1 h2 h3'
  have amount: "Amount (rows ?ndf ! 0) = (case Amount (rows ?df ! 0) of Numeric x \<Rightarrow> x | Text s \<Rightarrow> 0)"
    by blast
  have e0: "(case Amount (rows ?df ! 0) of Numeric x \<Rightarrow> x | Text s \<Rightarrow> 0) = (0::real)"
    by (simp add: raw_expense_def)
  have e1: "length (rows ?bdf) = 1" by simp
  have e2: "(case Monthly_Budget (rows ?bdf ! 0) of Numeric x \<Rightarrow> x | Text s \<Rightarrow> 0) = (0::real)"
    by simp
  have e3: "length (rows ?gdf) = 1" by simp
  have e4: "(case Target_Amount (rows ?gdf ! 0) of Numeric x \<Rightarrow> x | Text s \<Rightarrow> 0) = (0::real)"
    by simp
  have e5: "(case Current_Saved (rows ?gdf ! 0) of Numeric x \<Rightarrow> x | Text s \<Rightarrow> 0) = (5::real)"
    by simp
  have r1: "rows ?ndf = ?norm" by simp
  have r2: "rows ?df = ?raw" by simp
  from concl have
    "Date (?norm ! 1) = None \<and>
     length (rows (normalize_budgets ?bdf)) = 1 \<and>
     Monthly_Budget (rows (normalize_budgets ?bdf) ! 0) = 0 \<and>
     length (rows (normalize_goals ?gdf)) = 1 \<and>
     Target_Amount (rows (normalize_goals ?gdf) ! 0) = 0 \<and>
     Current_Saved (rows (normalize_goals ?gdf) ! 0) = 5"
    unfolding e1 e2 e3 e4 e5 r1 .
  moreover from amount have "Amount (?norm ! 0) = 0" unfolding e0 r1 .
  moreover from h8 have "Date (?raw ! 1) = []" unfolding r2 .
  ultimately show ?thesis using h1 h2 h4 h6 by blast
qed

text \<open>
  C7 as stated fails: a batch whose only row has a blank Date cell normalises; the row
  is kept, without a timestamp.
\<close>

theorem blank_date_normalizes_counterexample:
  "normalize_transactions sample_parser
     (DataFrame transactions_header [raw_expense [] ''Food'' (Numeric 12)]) =
   Inr \<lparr>columns = transactions_header, rows = [expense ''Food'' 12]\<rparr>"
  by (simp add: normalize_eval)

text \<open>With any parser, a batch whose Date cells are all blank normalises.\<close>

lemma blank_dates_never_fail:
  "list_all (\<lambda>r. Date r = []) (rows df) \<Longrightarrow> \<exists>ndf. normalize_transactions lib df = Inr ndf"
proof (cases "df_empty df")
  case True
  then show ?thesis by (simp add: normalize_transactions_def)
next
  case False
  assume "list_all (\<lambda>r. Date r = []) (rows df)"
  then have "\<not> (\<exists>e. to_datetime lib (map Date (rows df)) = Inl e)"
    unfolding to_datetime_def convert_listlike_Inl
    by (auto simp: list_all_iff is_null_def)
  with False show ?thesis
    by (auto simp: normalize_transactions_def split: sum.splits)
qed

text \<open>A batch with a Date cell that cannot be read fails as a whole.\<close>

lemma invalid_date_fails:
  "normalize_transactions sample_parser
     (DataFrame transactions_header
        [raw_expense ''2025-10-07'' ''Food'' (Numeric 12),
         raw_expense ''soon'' ''Rent'' (Numeric 900)]) =
   Inl (ValueError ''soon'')"
  by (simp add: normalize_eval)

text \<open>
  Whether a text can be read depends on the batch: a date with a time of day
  normalises when it comes first, and fails the batch when it follows a date without
  one, whose format it does not have.
\<close>

lemma readable_alone_fails_in_batch:
  "normalize_transactions sample_parser
     (DataFrame transactions_header
        [raw_expense ''2025-10-08 13:45:00'' ''Rent'' (Numeric 900)]) =
   Inr \<lparr>columns = transactions_header,
        rows = [(expense ''Rent'' 900)\<lparr>Date := Some (stamp 2025 10 8 49500)\<rparr>]\<rparr> \<and>
   normalize_transactions sample_parser
     (DataFrame transactions_header
        [raw_expense ''2025-10-07'' ''Food'' (Numeric 12),
         raw_expense ''2025-10-08 13:45:00'' ''Rent'' (Numeric 900)]) =
   Inl (ValueError ''2025-10-08 13:45:00'')"
  by (simp add: normalize_eval)

section \<open>Properties of the upserts\<close>

lemma first_index_Some:
  "x \<in> set xs \<Longrightarrow>
   \<exists>i. first_index xs x = Some i \<and> i < length xs \<and> xs ! i = x \<and> (\<forall>j<i. xs ! j \<noteq> x)"
proof (induction xs)
  case Nil
  then show ?case by simp
next
  case (Cons y ys)
  show ?case
  proof (cases "y = x")
    case True
    then show ?thesis by simp
  next
    case False
    with Cons.prems have "x \<in> set ys" by simp
    from Cons.IH [OF this] obtain i where i: "first_index ys x = Some i" "i < length ys"
      "ys ! i = x" "\<forall>j<i. ys ! j \<noteq> x" by blast
    have "\<forall>j<Suc i. (y # ys) ! j \<noteq> x"
    proof (intro allI impI)
      fix j assume "j < Suc i"
      then show "(y # ys) ! j \<noteq> x" using False i(4) by (cases j) auto
    qed
    with False i show ?thesis by simp
  qed
qed

lemma first_index_None: "x \<notin> set xs \<Longrightarrow> first_index xs x = None"
  by (induction xs) auto

lemma load_budgets_coherent:
  assumes "budgets_cache w sp = None \<or> budgets_cache w sp = Some (budgets_ws w sp)"
  shows "fst (load_budgets sp w) = DataFrame budgets_header (budgets_ws w sp)"
    and "budgets_ws (snd (load_budgets sp w)) = budgets_ws w"
    and "goals_ws (snd (load_budgets sp w)) = goals_ws w"
    and "transactions_ws (snd (load_budgets sp w)) = transactions_ws w"
  using assms by (auto simp: load_budgets_def cached_records_def split: option.splits)

lemma update_budget_row_found:
  assumes coh: "budgets_cache w sp = None \<or> budgets_cache w sp = Some (budgets_ws w sp)"
    and mem: "category \<in> Budget_Category ` set (budgets_ws w sp)"
  shows "\<exists>i w'. first_index (map Budget_Category (budgets_ws w sp)) category = Some i \<and>
           i < length (budgets_ws w sp) \<and>
           update_budget_row category amount sp w = Inr w' \<and>
           budgets_ws w' sp =
             (budgets_ws w sp)[i := (budgets_ws w sp ! i)\<lparr>Monthly_Budget := Numeric amount\<rparr>] \<and>
           (\<forall>sp'. sp' \<noteq> sp \<longrightarrow> budgets_ws w' sp' = budgets_ws w sp') \<and>
           transactions_ws w' = transactions_ws w \<and> goals_ws w' = goals_ws w"
proof -
  let ?rows = "budgets_ws w sp"
  from mem have ne: "?rows \<noteq> []" by auto
  from mem have "category \<in> set (map Budget_Category ?rows)" by simp
  from first_index_Some [OF this] obtain i where
    i: "first_index (map Budget_Category ?rows) category = Some i" "i < length ?rows"
    by auto
  obtain df w1 where l: "load_budgets sp w = (df, w1)" by (cases "load_budgets sp w")
  from load_budgets_coherent [OF coh] l ne
  have df: "df = \<lparr>columns = budgets_header, rows = ?rows\<rparr>"
    and w1: "budgets_ws w1 = budgets_ws w" "goals_ws w1 = goals_ws w"
      "transactions_ws w1 = transactions_ws w"
    by (simp_all add: DataFrame_def)
  have col: "column ''Category'' Budget_Category df = Inr (map Budget_Category ?rows)"
    by (simp add: column_def df budgets_header_def)
  let ?w' = "w1\<lparr>budgets_ws := (budgets_ws w1)
                        (sp := write_cell (\<lambda>r. r\<lparr>Monthly_Budget := Numeric amount\<rparr>) blank_budget
                             (i + 2) (budgets_ws w1 sp))\<rparr>"
  have "update_budget_row category amount sp w = Inr ?w'"
    using mem i(1) by (simp add: update_budget_row_def l col w1)
  moreover have "budgets_ws ?w' sp = ?rows[i := (?rows ! i)\<lparr>Monthly_Budget := Numeric amount\<rparr>]"
    using i(2) by (simp add: w1 write_cell_def)
  moreover have "\<forall>sp'. sp' \<noteq> sp \<longrightarrow> budgets_ws ?w' sp' = budgets_ws w sp'"
    by (simp add: w1)
  moreover have "transactions_ws ?w' = transactions_ws w \<and> goals_ws ?w' = goals_ws w"
    by (simp add: w1)
  ultimately show ?thesis using i by blast
qed

lemma load_goals_coherent:
  assumes "goals_cache w sp = None \<or> goals_cache w sp = Some (goals_ws w sp)"
  shows "fst (load_goals sp w) = DataFrame goals_header (goals_ws w sp)"
    and "budgets_ws (snd (load_goals sp w)) = budgets_ws w"
    and "goals_ws (snd (load_goals sp w)) = goals_ws w"
    and "transactions_ws (snd (load_goals sp w)) = transactions_ws w"
  using assms by (auto simp: load_goals_def cached_records_def split: option.splits)

lemma update_goal_row_found:
  assumes coh: "goals_cache w sp = None \<or> goals_cache w sp = Some (goals_ws w sp)"
    and mem: "goal_name \<in> Goal_Name ` set (goals_ws w sp)"
  shows "\<exists>i w'. first_index (map Goal_Name (goals_ws w sp)) goal_name = Some i \<and>
           i < length (goals_ws w sp) \<and>
           update_goal_row goal_name target current sp w = Inr w' \<and>
           goals_ws w' sp =
             (goals_ws w sp)[i := (goals_ws w sp ! i)
                \<lparr>Target_Amount := Numeric target, Current_Saved := Numeric current\<rparr>] \<and>
           (\<forall>sp'. sp' \<noteq> sp \<longrightarrow> goals_ws w' sp' = goals_ws w sp') \<and>
           transactions_ws w' = transactions_ws w \<and> budgets_ws w' = budgets_ws w"
proof -
  let ?rows = "goals_ws w sp"
  from mem have ne: "?rows \<noteq> []" by auto
  from mem have "goal_name \<in> set (map Goal_Name ?rows)" by simp
  from first_index_Some [OF this] obtain i where
    i: "first_index (map Goal_Name ?rows) goal_name = Some i" "i < length ?rows"
    by auto
  obtain df w1 where l: "load_goals sp w = (df, w1)" by (cases "load_goals sp w")
  from load_goals_coherent [OF coh] l ne
  have df: "df = \<lparr>columns = goals_header, rows = ?rows\<rparr>"
    and w1: "budgets_ws w1 = budgets_ws w" "goals_ws w1 = goals_ws w"
      "transactions_ws w1 = transactions_ws w"
    by (simp_all add: DataFrame_def)
  have col: "column ''Goal Name'' Goal_Name df = Inr (map Goal_Name ?rows)"
    by (simp add: column_def df goals_header_def)
  let ?w' = "w1\<lparr>goals_ws := (goals_ws w1)
                        (sp :=
                           write_cell (\<lambda>r. r\<lparr>Current_Saved := Numeric current\<rparr>) blank_goal (i + 2)
                             (write_cell (\<lambda>r. r\<lparr>Target_Amount := Numeric target\<rparr>) blank_goal
                                (i + 2) (goals_ws w1 sp)))\<rparr>"
  have "update_goal_row goal_name target current sp w = Inr ?w'"
    using mem i(1) by (simp add: update_goal_row_def l col w1)
  moreover have "goals_ws ?w' sp = ?rows[i := (?rows ! i)
                \<lparr>Target_Amount := Numeric target, Current_Saved := Numeric current\<rparr>]"
    using i(2) by (simp add: w1 write_cell_def)
  moreover have "\<forall>sp'. sp' \<noteq> sp \<longrightarrow> goals_ws ?w' sp' = goals_ws w sp'"
    by (simp add: w1)
  moreover have "transactions_ws ?w' = transactions_ws w \<and> budgets_ws ?w' = budgets_ws w"
    by (simp add: w1)
  ultimately show ?thesis using i by blast
qed

lemma first_index_lowest:
  "first_index xs x = Some i \<Longrightarrow> i < length xs \<and> xs ! i = x \<and> (\<forall>j<i. xs ! j \<noteq> x)"
proof -
  assume a: "first_index xs x = Some i"
  have "x \<in> set xs"
  proof (rule ccontr)
    assume "x \<notin> set xs"
    then have "first_index xs x = None" by (rule first_index_None)
    with a show False by simp
  qed
  from first_index_Some [OF this] a show ?thesis by auto
qed

text \<open>
  C10. When the key of an upsert is in the table, also more than once, the upsert
  writes the value column (for a goal, the two value columns) of the first row with
  that key, the one with the lowest index, and leaves every other row as it was: the
  table after the upsert is the table before it with that one row changed, so later
  rows with the same key stay and nothing is removed. The cache of the table is assumed
  to hold nothing or the present rows, as it does between two writes of the
  application.
\<close>

theorem upsert_first_match_only:
  "((budgets_cache w sp = None \<or> budgets_cache w sp = Some (budgets_ws w sp)) \<and>
    category \<in> Budget_Category ` set (budgets_ws w sp) \<longrightarrow>
      (\<exists>i w'. i < length (budgets_ws w sp) \<and>
         Budget_Category (budgets_ws w sp ! i) = category \<and>
         (\<forall>j<i. Budget_Category (budgets_ws w sp ! j) \<noteq> category) \<and>
         update_budget_row category amount sp w = Inr w' \<and>
         budgets_ws w' sp =
           (budgets_ws w sp)[i := (budgets_ws w sp ! i)\<lparr>Monthly_Budget := Numeric amount\<rparr>])) \<and>
   ((goals_cache w sp = None \<or> goals_cache w sp = Some (goals_ws w sp)) \<and>
    goal_name \<in> Goal_Name ` set (goals_ws w sp) \<longrightarrow>
      (\<exists>i w'. i < length (goals_ws w sp) \<and>
         Goal_Name (goals_ws w sp ! i) = goal_name \<and>
         (\<forall>j<i. Goal_Name (goals_ws w sp ! j) \<noteq> goal_name) \<and>
         update_goal_row goal_name target current sp w = Inr w' \<and>
         goals_ws w' sp =
           (goals_ws w sp)[i := (goals_ws w sp ! i)
              \<lparr>Target_Amount := Numeric target, Current_Saved := Numeric current\<rparr>]))"
proof (intro conjI impI)
  assume h: "(budgets_cache w sp = None \<or> budgets_cache w sp = Some (budgets_ws w sp)) \<and>
    category \<in> Budget_Category ` set (budgets_ws w sp)"
  from update_budget_row_found [of w sp category amount] h obtain i w' where
    f: "first_index (map Budget_Category (budgets_ws w sp)) category = Some i"
    and r: "i < length (budgets_ws w sp)"
      "update_budget_row category amount sp w = Inr w'"
      "budgets_ws w' sp =
           (budgets_ws w sp)[i := (budgets_ws w sp ! i)\<lparr>Monthly_Budget := Numeric amount\<rparr>]"
    by blast
  from first_index_lowest [OF f] r(1)
  have "Budget_Category (budgets_ws w sp ! i) = category \<and>
         (\<forall>j<i. Budget_Category (budgets_ws w sp ! j) \<noteq> category)"
    by auto
  with r show "\<exists>i w'. i < length (budgets_ws w sp) \<and>
         Budget_Category (budgets_ws w sp ! i) = category \<and>
         (\<forall>j<i. Budget_Category (budgets_ws w sp ! j) \<noteq> category) \<and>
         update_budget_row category amount sp w = Inr w' \<and>
         budgets_ws w' sp =
           (budgets_ws w sp)[i := (budgets_ws w sp ! i)\<lparr>Monthly_Budget := Numeric amount\<rparr>]"
    by blast
next
  assume h: "(goals_cache w sp = None \<or> goals_cache w sp = Some (goals_ws w sp)) \<and>
    goal_name \<in> Goal_Name ` set (goals_ws w sp)"
  from update_goal_row_found [of w sp goal_name target current] h obtain i w' where
    f: "first_index (map Goal_Name (goals_ws w sp)) goal_name = Some i"
    and r: "i < length (goals_ws w sp)"
      "update_goal_row goal_name target current sp w = Inr w'"
      "goals_ws w' sp =
           (goals_ws w sp)[i := (goals_ws w sp ! i)
              \<lparr>Target_Amount := Numeric target, Current_Saved := Numeric current\<rparr>]"
    by blast
  from first_index_lowest [OF f] r(1)
  have "Goal_Name (goals_ws w sp ! i) = goal_name \<and>
         (\<forall>j<i. Goal_Name (goals_ws w sp ! j) \<noteq> goal_name)"
    by auto
  with r show "\<exists>i w'. i < length (goals_ws w sp) \<and>
         Goal_Name (goals_ws w sp ! i) = goal_name \<and>
         (\<forall>j<i. Goal_Name (goals_ws w sp ! j) \<noteq> goal_name) \<and>
         update_goal_row goal_name target current sp w = Inr w' \<and>
         goals_ws w' sp =
           (goals_ws w sp)[i := (goals_ws w sp ! i)
              \<lparr>Target_Amount := Numeric target, Current_Saved := Numeric current\<rparr>]"
    by blast
qed

text \<open>
  Food is budgeted twice and the goal Trip is listed twice: only the first row of each
  changes.
\<close>

theorem upsert_first_match_only_witness:
  "budgets_cache
     (world_of []
        [\<lparr>Budget_Category = ''Food'', Monthly_Budget = Numeric 100\<rparr>,
         \<lparr>Budget_Category = ''Rent'', Monthly_Budget = Numeric 900\<rparr>,
         \<lparr>Budget_Category = ''Food'', Monthly_Budget = Numeric 300\<rparr>]
        [\<lparr>Goal_Name = ''Trip'', Target_Amount = Numeric 1000, Current_Saved = Numeric 10\<rparr>,
         \<lparr>Goal_Name = ''Trip'', Target_Amount = Numeric 2000, Current_Saved = Numeric 20\<rparr>])
     SHEET_NAME = None \<and>
   (\<exists>w'. update_budget_row ''Food'' 250 SHEET_NAME
       (world_of []
        [\<lparr>Budget_Category = ''Food'', Monthly_Budget = Numeric 100\<rparr>,
         \<lparr>Budget_Category = ''Rent'', Monthly_Budget = Numeric 900\<rparr>,
         \<lparr>Budget_Category = ''Food'', Monthly_Budget = Numeric 300\<rparr>]
        [\<lparr>Goal_Name = ''Trip'', Target_Amount = Numeric 1000, Current_Saved = Numeric 10\<rparr>,
         \<lparr>Goal_Name = ''Trip'', Target_Amount = Numeric 2000, Current_Saved = Numeric 20\<rparr>]) = Inr w' \<and>
     budgets_ws w' SHEET_NAME =
       [\<lparr>Budget_Category = ''Food'', Monthly_Budget = Numeric 250\<rparr>,
        \<lparr>Budget_Category = ''Rent'', Monthly_Budget = Numeric 900\<rparr>,
        \<lparr>Budget_Category = ''Food'', Monthly_Budget = Numeric 300\<rparr>]) \<and>
   (\<exists>w'. update_goal_row ''Trip'' 1500 40 SHEET_NAME
       (world_of []
        [\<lparr>Budget_Category = ''Food'', Monthly_Budget = Numeric 100\<rparr>,
         \<lparr>Budget_Category = ''Rent'', Monthly_Budget = Numeric 900\<rparr>,
         \<lparr>Budget_Category = ''Food'', Monthly_Budget = Numeric 300\<rparr>]
        [\<lparr>Goal_Name = ''Trip'', Target_Amount = Numeric 1000, Current_Saved = Numeric 10\<rparr>,
         \<lparr>Goal_Name = ''Trip'', Target_Amount = Numeric 2000, Current_Saved = Numeric 20\<rparr>]) = Inr w' \<and>
     goals_ws w' SHEET_NAME =
       [\<lparr>Goal_Name = ''Trip'', Target_Amount = Numeric 1500, Current_Saved = Numeric 40\<rparr>,
        \<lparr>Goal_Name = ''Trip'', Target_Amount = Numeric 2000, Current_Saved = Numeric 20\<rparr>])"
proof -
  let ?bs = "[\<lparr>Budget_Category = ''Food'', Monthly_Budget = Numeric 100\<rparr>,
         \<lparr>Budget_Category = ''Rent'', Monthly_Budget = Numeric 900\<rparr>,
         \<lparr>Budget_Category = ''Food'', Monthly_Budget = Numeric 300\<rparr>]"
  let ?gs = "[\<lparr>Goal_Name = ''Trip'', Target_Amount = Numeric 1000, Current_Saved = Numeric 10\<rparr>,
         \<lparr>Goal_Name = ''Trip'', Target_Amount = Numeric 2000, Current_Saved = Numeric 20\<rparr>]"
  let ?w = "world_of [] ?bs ?gs"
  have b: "budgets_ws ?w SHEET_NAME = ?bs" and g: "goals_ws ?w SHEET_NAME = ?gs"
    and cb: "budgets_cache ?w SHEET_NAME = None" and cg: "goals_cache ?w SHEET_NAME = None"
    by (simp_all add: world_of_def)
  have hb: "(budgets_cache ?w SHEET_NAME = None \<or>
             budgets_cache ?w SHEET_NAME = Some (budgets_ws ?w SHEET_NAME)) \<and>
            ''Food'' \<in> Budget_Category ` set (budgets_ws ?w SHEET_NAME)"
    by (simp add: b cb)
  have hg: "(goals_cache ?w SHEET_NAME = None \<or>
             goals_cache ?w SHEET_NAME = Some (goals_ws ?w SHEET_NAME)) \<and>
            ''Trip'' \<in> Goal_Name ` set (goals_ws ?w SHEET_NAME)"
    by (simp add: g cg)
  note th = upsert_first_match_only [of ?w SHEET_NAME "''Food''" 250 "''Trip''" 1500 40]
  from th hb obtain i w' where
    i: "\<forall>j<i. Budget_Category (budgets_ws ?w SHEET_NAME ! j) \<noteq> ''Food''"
    and u: "update_budget_row ''Food'' 250 SHEET_NAME ?w = Inr w'"
       "budgets_ws w' SHEET_NAME = (budgets_ws ?w SHEET_NAME)
          [i := (budgets_ws ?w SHEET_NAME ! i)\<lparr>Monthly_Budget := Numeric 250\<rparr>]"
    by blast
  have i0: "i = 0"
  proof (rule ccontr)
    assume "i \<noteq> 0"
    then have "0 < i" by simp
    with i have "Budget_Category (budgets_ws ?w SHEET_NAME ! 0) \<noteq> ''Food''" by blast
    then show False by (simp add: b)
  qed
  from th hg obtain k w'' where
    k: "\<forall>j<k. Goal_Name (goals_ws ?w SHEET_NAME ! j) \<noteq> ''Trip''"
    and v: "update_goal_row ''Trip'' 1500 40 SHEET_NAME ?w = Inr w''"
       "goals_ws w'' SHEET_NAME = (goals_ws ?w SHEET_NAME)
          [k := (goals_ws ?w SHEET_NAME ! k)
             \<lparr>Target_Amount := Numeric 1500, Current_Saved := Numeric 40\<rparr>]"
    by blast
  have k0: "k = 0"
  proof (rule ccontr)
    assume "k \<noteq> 0"
    then have "0 < k" by simp
    with k have "Goal_Name (goals_ws ?w SHEET_NAME ! 0) \<noteq> ''Trip''" by blast
    then show False by (simp add: g)
  qed
  have r1: "budgets_ws w' SHEET_NAME =
       [\<lparr>Budget_Category = ''Food'', Monthly_Budget = Numeric 250\<rparr>,
        \<lparr>Budget_Category = ''Rent'', Monthly_Budget = Numeric 900\<rparr>,
        \<lparr>Budget_Category = ''Food'', Monthly_Budget = Numeric 300\<rparr>]"
    using u(2) by (simp add: i0 b)
  have r2: "goals_ws w'' SHEET_NAME =
       [\<lparr>Goal_Name = ''Trip'', Target_Amount = Numeric 1500, Current_Saved = Numeric 40\<rparr>,
        \<lparr>Goal_Name = ''Trip'', Target_Amount = Numeric 2000, Current_Saved = Numeric 20\<rparr>]"
    using v(2) by (simp add: k0 g)
  from cb u(1) r1 v(1) r2 show ?thesis by blast
qed

section \<open>The budget upsert on an empty and on a non-empty table\<close>

text \<open>
  A Budgets worksheet without rows loads as a frame without columns, and the upsert
  raises \<^verbatim>\<open>KeyError\<close> at \<^verbatim>\<open>df["Category"]\<close> before it writes anything.
\<close>

lemma update_budget_row_empty_table:
  assumes coh: "budgets_cache w sp = None \<or> budgets_cache w sp = Some (budgets_ws w sp)"
    and e: "budgets_ws w sp = []"
  shows "update_budget_row category amount sp w = Inl (KeyError ''Category'')"
proof -
  obtain df w1 where l: "load_budgets sp w = (df, w1)" by (cases "load_budgets sp w")
  from load_budgets_coherent(1) [OF coh] l e have "df = \<lparr>columns = [], rows = []\<rparr>"
    by (simp add: DataFrame_def)
  then show ?thesis by (simp add: update_budget_row_def l column_def)
qed

lemma update_budget_row_not_found:
  assumes coh: "budgets_cache w sp = None \<or> budgets_cache w sp = Some (budgets_ws w sp)"
    and ne: "budgets_ws w sp \<noteq> []"
    and nmem: "category \<notin> Budget_Category ` set (budgets_ws w sp)"
  shows "\<exists>w'. update_budget_row category amount sp w = Inr w' \<and>
           budgets_ws w' sp =
             budgets_ws w sp @ [\<lparr>Budget_Category = category, Monthly_Budget = Numeric amount\<rparr>]"
proof -
  let ?rows = "budgets_ws w sp"
  obtain df w1 where l: "load_budgets sp w = (df, w1)" by (cases "load_budgets sp w")
  from load_budgets_coherent [OF coh] l ne
  have df: "df = \<lparr>columns = budgets_header, rows = ?rows\<rparr>"
    and w1: "budgets_ws w1 = budgets_ws w"
    by (simp_all add: DataFrame_def)
  have col: "column ''Category'' Budget_Category df = Inr (map Budget_Category ?rows)"
    by (simp add: column_def df budgets_header_def)
  show ?thesis using nmem by (simp add: update_budget_row_def l col w1)
qed

lemma filter_key_at:
  "distinct (map f xs) \<Longrightarrow> i < length xs \<Longrightarrow> filter (\<lambda>x. f x = f (xs ! i)) xs = [xs ! i]"
proof (induction xs arbitrary: i)
  case Nil
  then show ?case by simp
next
  case (Cons x xs)
  show ?case
  proof (cases i)
    case 0
    from Cons.prems(1) have "f x \<notin> f ` set xs" by simp
    then have "filter (\<lambda>y. f y = f x) xs = []"
      by (simp add: filter_empty_conv) (metis image_eqI)
    with 0 show ?thesis by simp
  next
    case (Suc k)
    with Cons.prems have k: "k < length xs" and d: "distinct (map f xs)" by simp_all
    from Cons.prems(1) k have "f x \<noteq> f (xs ! k)" by auto
    with Suc Cons.IH [OF d k] show ?thesis by simp
  qed
qed

lemma budget_row_update_eq:
  "r\<lparr>Monthly_Budget := v\<rparr> = \<lparr>Budget_Category = Budget_Category r, Monthly_Budget = v\<rparr>"
  by (cases r) simp

lemma clear_sheets:
  "budgets_ws (clear w) = budgets_ws w" "budgets_cache (clear w) sp = None"
  "goals_ws (clear w) = goals_ws w" "goals_cache (clear w) sp = None"
  "transactions_ws (clear w) = transactions_ws w" "transactions_cache (clear w) sp = None"
  by (simp_all add: clear_def)

lemma update_budget_row_settled:
  assumes coh: "budgets_cache w sp = None \<or> budgets_cache w sp = Some (budgets_ws w sp)"
    and one: "filter (\<lambda>r. Budget_Category r = category) (budgets_ws w sp) =
                [\<lparr>Budget_Category = category, Monthly_Budget = Numeric amount\<rparr>]"
  shows "\<exists>w'. update_budget_row category amount sp w = Inr w' \<and>
           budgets_ws w' sp = budgets_ws w sp"
proof -
  let ?rows = "budgets_ws w sp"
  let ?new = "\<lparr>Budget_Category = category, Monthly_Budget = Numeric amount\<rparr>"
  have "?new \<in> set (filter (\<lambda>r. Budget_Category r = category) ?rows)" by (simp add: one)
  then have mem: "category \<in> Budget_Category ` set ?rows" by force
  from update_budget_row_found [OF coh mem, of amount] obtain i w' where
    f: "first_index (map Budget_Category ?rows) category = Some i"
    and r: "i < length ?rows" "update_budget_row category amount sp w = Inr w'"
      "budgets_ws w' sp = ?rows[i := (?rows ! i)\<lparr>Monthly_Budget := Numeric amount\<rparr>]"
    by blast
  from first_index_lowest [OF f] r(1) have "Budget_Category (?rows ! i) = category" by simp
  with r(1) have "?rows ! i \<in> set (filter (\<lambda>r. Budget_Category r = category) ?rows)"
    by simp
  then have "?rows ! i = ?new" by (simp add: one)
  then have "(?rows ! i)\<lparr>Monthly_Budget := Numeric amount\<rparr> = ?rows ! i" by simp
  with r show ?thesis by simp
qed

text \<open>
  On a Budgets worksheet with at least one row and no category listed twice, the
  upsert leaves exactly one row for the category, carrying the amount, and the same
  call once more, after the cache was cleared, changes nothing.
\<close>

lemma upsert_budget_unique_row:
  assumes coh: "budgets_cache w sp = None \<or> budgets_cache w sp = Some (budgets_ws w sp)"
    and ne: "budgets_ws w sp \<noteq> []"
    and d: "distinct (map Budget_Category (budgets_ws w sp))"
  shows "\<exists>w'. update_budget_row category amount sp w = Inr w' \<and>
           filter (\<lambda>r. Budget_Category r = category) (budgets_ws w' sp) =
             [\<lparr>Budget_Category = category, Monthly_Budget = Numeric amount\<rparr>] \<and>
           distinct (map Budget_Category (budgets_ws w' sp)) \<and>
           (\<exists>w''. update_budget_row category amount sp (clear w') = Inr w'' \<and>
                  budgets_ws w'' sp = budgets_ws w' sp)"
proof -
  let ?rows = "budgets_ws w sp"
  let ?new = "\<lparr>Budget_Category = category, Monthly_Budget = Numeric amount\<rparr>"
  have step: "\<exists>w'. update_budget_row category amount sp w = Inr w' \<and>
           filter (\<lambda>r. Budget_Category r = category) (budgets_ws w' sp) = [?new] \<and>
           distinct (map Budget_Category (budgets_ws w' sp))"
  proof (cases "category \<in> Budget_Category ` set ?rows")
    case True
    from update_budget_row_found [OF coh True, of amount] obtain i w' where
      f: "first_index (map Budget_Category ?rows) category = Some i"
      and r: "i < length ?rows" "update_budget_row category amount sp w = Inr w'"
        "budgets_ws w' sp = ?rows[i := (?rows ! i)\<lparr>Monthly_Budget := Numeric amount\<rparr>]"
      by blast
    from first_index_lowest [OF f] r(1) have key: "Budget_Category (?rows ! i) = category"
      by simp
    let ?rows' = "?rows[i := (?rows ! i)\<lparr>Monthly_Budget := Numeric amount\<rparr>]"
    have keys: "map Budget_Category ?rows' = map Budget_Category ?rows"
      using r(1) by (simp add: map_update list_update_same_conv)
    have d': "distinct (map Budget_Category ?rows')" using d keys by simp
    have i': "i < length ?rows'" using r(1) by simp
    have at: "?rows' ! i = ?new" using r(1) key by (simp add: budget_row_update_eq)
    from filter_key_at [OF d' i'] at
    have "filter (\<lambda>r. Budget_Category r = category) ?rows' = [?new]" by simp
    with r d' show ?thesis by simp
  next
    case False
    from update_budget_row_not_found [OF coh ne False, of amount] obtain w' where
      r: "update_budget_row category amount sp w = Inr w'"
         "budgets_ws w' sp = ?rows @ [?new]"
      by blast
    from False have "filter (\<lambda>r. Budget_Category r = category) ?rows = []"
      by (auto simp: filter_empty_conv)
    moreover from False d have "distinct (map Budget_Category (?rows @ [?new]))" by simp
    ultimately show ?thesis using r by simp
  qed
  then obtain w' where w': "update_budget_row category amount sp w = Inr w'"
    "filter (\<lambda>r. Budget_Category r = category) (budgets_ws w' sp) = [?new]"
    "distinct (map Budget_Category (budgets_ws w' sp))"
    by blast
  have coh': "budgets_cache (clear w') sp = None \<or>
              budgets_cache (clear w') sp = Some (budgets_ws (clear w') sp)"
    by (simp add: clear_sheets)
  from update_budget_row_settled [of "clear w'" sp category amount] coh' w'(2)
  have "\<exists>w''. update_budget_row category amount sp (clear w') = Inr w'' \<and>
                  budgets_ws w'' sp = budgets_ws w' sp"
    by (simp add: clear_sheets)
  with w' show ?thesis by blast
qed

text \<open>
  Food and Rent are budgeted and Rent is set to 950: one row for Rent is left, with
  950, and the table has no category twice.
\<close>

lemma upsert_budget_unique_row_witness:
  "(budgets_cache
      (world_of []
         [\<lparr>Budget_Category = ''Food'', Monthly_Budget = Numeric 100\<rparr>,
          \<lparr>Budget_Category = ''Rent'', Monthly_Budget = Numeric 900\<rparr>] []) SHEET_NAME = None) \<and>
   budgets_ws
      (world_of []
         [\<lparr>Budget_Category = ''Food'', Monthly_Budget = Numeric 100\<rparr>,
          \<lparr>Budget_Category = ''Rent'', Monthly_Budget = Numeric 900\<rparr>] []) SHEET_NAME \<noteq> [] \<and>
   (\<exists>w'. update_budget_row ''Rent'' 950 SHEET_NAME
       (world_of []
         [\<lparr>Budget_Category = ''Food'', Monthly_Budget = Numeric 100\<rparr>,
          \<lparr>Budget_Category = ''Rent'', Monthly_Budget = Numeric 900\<rparr>] []) = Inr w' \<and>
     filter (\<lambda>r. Budget_Category r = ''Rent'') (budgets_ws w' SHEET_NAME) =
       [\<lparr>Budget_Category = ''Rent'', Monthly_Budget = Numeric 950\<rparr>] \<and>
     distinct (map Budget_Category (budgets_ws w' SHEET_NAME)))"
proof -
  let ?w = "world_of []
         [\<lparr>Budget_Category = ''Food'', Monthly_Budget = Numeric 100\<rparr>,
          \<lparr>Budget_Category = ''Rent'', Monthly_Budget = Numeric 900\<rparr>] []"
  have c: "budgets_cache ?w SHEET_NAME = None" by (simp add: world_of_def)
  then have coh: "budgets_cache ?w SHEET_NAME = None \<or>
                  budgets_cache ?w SHEET_NAME = Some (budgets_ws ?w SHEET_NAME)" by simp
  have ne: "budgets_ws ?w SHEET_NAME \<noteq> []" by (simp add: world_of_def)
  have d: "distinct (map Budget_Category (budgets_ws ?w SHEET_NAME))" by (simp add: world_of_def)
  from upsert_budget_unique_row [OF coh ne d, of "''Rent''" 950] c ne show ?thesis by blast
qed

text \<open>
  C2 on the code: the Budgets worksheet has its header and no row, and the budget form
  is submitted for Food with 500. The upsert raises, so no row for Food is written.
\<close>

theorem update_budget_row_empty_table_raises:
  "update_budget_row ''Food'' 500 SHEET_NAME (world_of [] [] []) = Inl (KeyError ''Category'') \<and>
   budget_submit ''Food'' 500 (world_of [] [] []) = Inl (KeyError ''Category'')"
  by (simp add: budget_submit_def strip_def is_space_def update_budget_row_def load_budgets_def
      cached_records_def world_of_def DataFrame_def column_def)

section \<open>Properties of the month partition\<close>

lemma set_unique: "set (unique xs) = set xs"
  by (induction xs rule: unique.induct) auto

lemma distinct_unique: "distinct (unique xs)"
  by (induction xs rule: unique.induct) (auto simp: set_unique)

lemma sorted_unique: "sorted xs \<Longrightarrow> sorted (unique xs)"
proof (induction xs rule: unique.induct)
  case 1
  then show ?case by simp
next
  case (2 x xs)
  from "2.prems" have "sorted (filter (\<lambda>y. y \<noteq> x) xs)"
    by (simp add: sorted_wrt_filter)
  with "2.IH" have "sorted (unique (filter (\<lambda>y. y \<noteq> x) xs))" by simp
  moreover from "2.prems" have "\<forall>y\<in>set (unique (filter (\<lambda>y. y \<noteq> x) xs)). x \<le> y"
    by (auto simp: set_unique)
  ultimately show ?case by simp
qed

lemma set_months: "set (months df) = (\<lambda>t. month_key (Date t)) ` set df"
  by (simp add: months_def set_unique)

lemma distinct_months: "distinct (months df)"
  by (simp add: months_def distinct_unique)

lemma sorted_months: "sorted (months df)"
  by (simp add: months_def sorted_unique)

lemma length_filter_disjoint:
  "(\<And>x. x \<in> set xs \<Longrightarrow> \<not> (P x \<and> Q x)) \<Longrightarrow>
   length (filter P xs) + length (filter Q xs) = length (filter (\<lambda>x. P x \<or> Q x) xs)"
  by (induction xs) auto

lemma partition_sizes:
  "distinct ks \<Longrightarrow>
   sum_list (map (\<lambda>k. length (filter (\<lambda>t. f t = k) xs)) ks) =
   length (filter (\<lambda>t. f t \<in> set ks) xs)"
proof (induction ks)
  case Nil
  then show ?case by simp
next
  case (Cons k ks)
  then have d: "k \<notin> set ks" and IH: "sum_list (map (\<lambda>k. length (filter (\<lambda>t. f t = k) xs)) ks) =
   length (filter (\<lambda>t. f t \<in> set ks) xs)" by simp_all
  have "length (filter (\<lambda>t. f t = k) xs) + length (filter (\<lambda>t. f t \<in> set ks) xs) =
        length (filter (\<lambda>t. f t = k \<or> f t \<in> set ks) xs)"
    using d by (intro length_filter_disjoint) auto
  with IH show ?case by simp
qed

lemma partition_covers:
  "sum_list (map (\<lambda>k. length (df_month df k)) (months df)) = length df"
proof -
  have "sum_list (map (\<lambda>k. length (df_month df k)) (months df)) =
        length (filter (\<lambda>t. month_key (Date t) \<in> set (months df)) df)"
    unfolding df_month_def by (rule partition_sizes) (rule distinct_months)
  also have "filter (\<lambda>t. month_key (Date t) \<in> set (months df)) df = df"
    by (simp add: set_months)
  finally show ?thesis .
qed

lemma filter_eq_distinct:
  "distinct ks \<Longrightarrow> c \<in> set ks \<Longrightarrow> filter (\<lambda>k. k = c) ks = [c]"
proof (induction ks)
  case Nil
  then show ?case by simp
next
  case (Cons k ks)
  show ?case
  proof (cases "k = c")
    case True
    with Cons.prems have "c \<notin> set ks" by simp
    then have "filter (\<lambda>k. k = c) ks = []" by (auto simp: filter_empty_conv)
    with True show ?thesis by simp
  next
    case False
    with Cons show ?thesis by simp
  qed
qed

lemma one_partition:
  "t \<in> set df \<Longrightarrow> filter (\<lambda>k. t \<in> set (df_month df k)) (months df) = [month_key (Date t)]"
proof -
  assume t: "t \<in> set df"
  have "filter (\<lambda>k. t \<in> set (df_month df k)) (months df) =
        filter (\<lambda>k. k = month_key (Date t)) (months df)"
    using t by (intro filter_cong) (auto simp: df_month_def)
  also have "\<dots> = [month_key (Date t)]"
    using t by (intro filter_eq_distinct distinct_months) (simp add: set_months)
  finally show ?thesis .
qed

lemma sorted_last_max: "sorted xs \<Longrightarrow> x \<in> set xs \<Longrightarrow> x \<le> last xs"
proof (induction xs)
  case Nil
  then show ?case by simp
next
  case (Cons a xs)
  show ?case
  proof (cases "xs = []")
    case True
    with Cons.prems show ?thesis by simp
  next
    case False
    then have l: "last xs \<in> set xs" by simp
    from Cons.prems(1) have s: "sorted xs" and a: "\<forall>y\<in>set xs. a \<le> y" by simp_all
    show ?thesis
    proof (cases "x = a")
      case True
      with a l False show ?thesis by simp
    next
      case neq: False
      with Cons.prems(2) have "x \<in> set xs" by simp
      with Cons.IH s False show ?thesis by simp
    qed
  qed
qed

lemma months_nonempty: "df \<noteq> [] \<Longrightarrow> months df \<noteq> []"
proof -
  assume "df \<noteq> []"
  then have "set (months df) \<noteq> {}" by (simp add: set_months)
  then show ?thesis by auto
qed

lemma selected_month_last:
  "df \<noteq> [] \<Longrightarrow> selected_month df = Some (last (months df))"
  by (simp add: selected_month_def months_nonempty last_conv_nth)

lemma selected_month_none: "selected_month [] = None"
  by (simp add: selected_month_def months_def)

text \<open>The digits of a year and of a month.\<close>

lemma of_char_digit: "n < 10 \<Longrightarrow> of_char (digit n) = (48 + n :: nat)"
  by (simp add: digit_def)

lemma digit_less: "a < 10 \<Longrightarrow> b < 10 \<Longrightarrow> digit a < digit b \<longleftrightarrow> a < b"
  by (simp add: less_char_def of_char_digit)

lemma digit_eq: "a < 10 \<Longrightarrow> b < 10 \<Longrightarrow> digit a = digit b \<longleftrightarrow> a = b"
proof
  assume "a < 10" "b < 10" "digit a = digit b"
  then have "(of_char (digit a) :: nat) = of_char (digit b)" by simp
  with \<open>a < 10\<close> \<open>b < 10\<close> show "a = b" by (simp add: of_char_digit)
qed simp

lemma digit_0: "digit 0 = CHR ''0''"
  by code_simp

lemma decimal_1: "n < 10 \<Longrightarrow> decimal n = [digit n]"
  by (simp add: decimal.simps)

lemma decimal_2: "10 \<le> n \<Longrightarrow> n < 100 \<Longrightarrow> decimal n = [digit (n div 10), digit (n mod 10)]"
  by (subst decimal.simps) (simp add: decimal_1)

lemma decimal_3:
  "100 \<le> n \<Longrightarrow> n < 1000 \<Longrightarrow>
   decimal n = [digit (n div 100), digit (n div 10 mod 10), digit (n mod 10)]"
proof -
  assume a: "100 \<le> n" "n < 1000"
  then have "10 \<le> n div 10" "n div 10 < 100" by simp_all
  from decimal_2 [OF this] a show ?thesis
    by (subst decimal.simps) (simp add: div_mult2_eq [symmetric])
qed

lemma decimal_4:
  "1000 \<le> n \<Longrightarrow> n < 10000 \<Longrightarrow>
   decimal n = [digit (n div 1000), digit (n div 100 mod 10), digit (n div 10 mod 10),
                digit (n mod 10)]"
proof -
  assume a: "1000 \<le> n" "n < 10000"
  then have "100 \<le> n div 10" "n div 10 < 1000" by simp_all
  from decimal_3 [OF this] a show ?thesis
    by (subst decimal.simps) (simp add: div_mult2_eq [symmetric])
qed

lemma zero_pad_2:
  "m < 100 \<Longrightarrow> zero_pad 2 m = [digit (m div 10), digit (m mod 10)]"
proof (cases "m < 10")
  case True
  then show ?thesis by (simp add: zero_pad_def decimal_1 digit_0)
next
  case False
  assume "m < 100"
  with False show ?thesis by (simp add: zero_pad_def decimal_2)
qed

lemma zero_pad_4:
  assumes "1000 \<le> y" "y < 10000"
  shows "zero_pad 4 y = [digit (y div 1000), digit (y div 100 mod 10), digit (y div 10 mod 10),
                digit (y mod 10)]"
  using assms by (simp add: zero_pad_def decimal_4)

lemma lex10_less:
  fixes a r b s :: nat
  assumes "r < 10" "s < 10"
  shows "10 * a + r < 10 * b + s \<longleftrightarrow> a < b \<or> (a = b \<and> r < s)"
  using assms by arith

lemma lex10_le:
  fixes a r b s :: nat
  assumes "r < 10" "s < 10"
  shows "10 * a + r \<le> 10 * b + s \<longleftrightarrow> a < b \<or> (a = b \<and> r \<le> s)"
  using assms by arith

lemma less_by_last_digit:
  "(x::nat) < y \<longleftrightarrow> x div 10 < y div 10 \<or> (x div 10 = y div 10 \<and> x mod 10 < y mod 10)"
proof -
  have "x < y \<longleftrightarrow> 10 * (x div 10) + x mod 10 < 10 * (y div 10) + y mod 10" by simp
  also have "\<dots> \<longleftrightarrow> x div 10 < y div 10 \<or> (x div 10 = y div 10 \<and> x mod 10 < y mod 10)"
    by (rule lex10_less) simp_all
  finally show ?thesis .
qed

lemma le_by_last_digit:
  "(x::nat) \<le> y \<longleftrightarrow> x div 10 < y div 10 \<or> (x div 10 = y div 10 \<and> x mod 10 \<le> y mod 10)"
proof -
  have "x \<le> y \<longleftrightarrow> 10 * (x div 10) + x mod 10 \<le> 10 * (y div 10) + y mod 10" by simp
  also have "\<dots> \<longleftrightarrow> x div 10 < y div 10 \<or> (x div 10 = y div 10 \<and> x mod 10 \<le> y mod 10)"
    by (rule lex10_le) simp_all
  finally show ?thesis .
qed

lemma eq_by_last_digit:
  "(x::nat) = y \<longleftrightarrow> x div 10 = y div 10 \<and> x mod 10 = y mod 10"
  by (metis div_mult_mod_eq)

lemma month_key_form:
  assumes "valid_timestamp ts"
  shows "month_key (Some ts) =
    [digit (year (date_part ts) div 1000), digit (year (date_part ts) div 100 mod 10),
     digit (year (date_part ts) div 10 mod 10), digit (year (date_part ts) mod 10),
     CHR ''-'',
     digit (month (date_part ts) div 10), digit (month (date_part ts) mod 10)]"
proof -
  from assms have y: "1000 \<le> year (date_part ts)" "year (date_part ts) < 10000"
    and m: "month (date_part ts) < 100"
    by (simp_all add: valid_timestamp_def)
  show ?thesis
    by (simp add: month_key_def zero_pad_4 [OF y] zero_pad_2 [OF m])
qed

lemma less_by_digits4:
  "(x::nat) < y \<longleftrightarrow>
     x div 1000 < y div 1000 \<or> x div 1000 = y div 1000 \<and>
     (x div 100 mod 10 < y div 100 mod 10 \<or> x div 100 mod 10 = y div 100 mod 10 \<and>
     (x div 10 mod 10 < y div 10 mod 10 \<or> x div 10 mod 10 = y div 10 mod 10 \<and>
      x mod 10 < y mod 10))"
proof -
  have d2: "x div 10 div 10 = x div 100" "y div 10 div 10 = y div 100"
    by (simp_all add: div_mult2_eq [symmetric])
  have d3: "x div 100 div 10 = x div 1000" "y div 100 div 10 = y div 1000"
    by (simp_all add: div_mult2_eq [symmetric])
  note l1 = less_by_last_digit [of x y]
  note l2 = less_by_last_digit [of "x div 10" "y div 10", unfolded d2]
  note e2 = eq_by_last_digit [of "x div 10" "y div 10", unfolded d2]
  note l3 = less_by_last_digit [of "x div 100" "y div 100", unfolded d3]
  note e3 = eq_by_last_digit [of "x div 100" "y div 100", unfolded d3]
  show ?thesis
    unfolding l1 l2 e2 l3 e3 by blast
qed

lemma eq_by_digits4:
  "(x::nat) = y \<longleftrightarrow>
     x div 1000 = y div 1000 \<and> x div 100 mod 10 = y div 100 mod 10 \<and>
     x div 10 mod 10 = y div 10 mod 10 \<and> x mod 10 = y mod 10"
proof -
  have d2: "x div 10 div 10 = x div 100" "y div 10 div 10 = y div 100"
    by (simp_all add: div_mult2_eq [symmetric])
  have d3: "x div 100 div 10 = x div 1000" "y div 100 div 10 = y div 1000"
    by (simp_all add: div_mult2_eq [symmetric])
  note e1 = eq_by_last_digit [of x y]
  note e2 = eq_by_last_digit [of "x div 10" "y div 10", unfolded d2]
  note e3 = eq_by_last_digit [of "x div 100" "y div 100", unfolded d3]
  show ?thesis
    unfolding e1 e2 e3 by blast
qed

lemma month_key_le:
  assumes v1: "valid_timestamp ts1" and v2: "valid_timestamp ts2"
  shows "month_key (Some ts1) \<le> month_key (Some ts2) \<longleftrightarrow>
         year (date_part ts1) < year (date_part ts2) \<or>
         (year (date_part ts1) = year (date_part ts2) \<and>
          month (date_part ts1) \<le> month (date_part ts2))"
proof -
  define x where "x = year (date_part ts1)"
  define y where "y = year (date_part ts2)"
  define m where "m = month (date_part ts1)"
  define n where "n = month (date_part ts2)"
  from v1 v2 have b: "x div 1000 < 10" "y div 1000 < 10" "m div 10 < 10" "n div 10 < 10"
    by (auto simp: valid_timestamp_def x_def y_def m_def n_def intro!: less_mult_imp_div_less)
  have form1: "month_key (Some ts1) =
      [digit (x div 1000), digit (x div 100 mod 10), digit (x div 10 mod 10), digit (x mod 10),
       CHR ''-'', digit (m div 10), digit (m mod 10)]"
    unfolding x_def m_def by (rule month_key_form [OF v1])
  have form2: "month_key (Some ts2) =
      [digit (y div 1000), digit (y div 100 mod 10), digit (y div 10 mod 10), digit (y mod 10),
       CHR ''-'', digit (n div 10), digit (n mod 10)]"
    unfolding y_def n_def by (rule month_key_form [OF v2])
  have "month_key (Some ts1) \<le> month_key (Some ts2) \<longleftrightarrow>
     x div 1000 < y div 1000 \<or> x div 1000 = y div 1000 \<and>
     (x div 100 mod 10 < y div 100 mod 10 \<or> x div 100 mod 10 = y div 100 mod 10 \<and>
     (x div 10 mod 10 < y div 10 mod 10 \<or> x div 10 mod 10 = y div 10 mod 10 \<and>
     (x mod 10 < y mod 10 \<or> x mod 10 = y mod 10 \<and>
     (m div 10 < n div 10 \<or> m div 10 = n div 10 \<and> m mod 10 \<le> n mod 10))))"
    unfolding form1 form2 using b by (simp add: digit_less digit_eq) (auto simp: le_less digit_less digit_eq)
  also have "\<dots> \<longleftrightarrow> x < y \<or> (x = y \<and> m \<le> n)"
    unfolding less_by_digits4 [of x y] eq_by_digits4 [of x y] le_by_last_digit [of m n] by blast
  finally show ?thesis unfolding x_def y_def m_def n_def .
qed

text \<open>The keys of the sample transactions.\<close>

lemma digits:
  "digit 0 = CHR ''0''" "digit 1 = CHR ''1''" "digit 2 = CHR ''2''" "digit 3 = CHR ''3''"
  "digit 4 = CHR ''4''" "digit 5 = CHR ''5''" "digit 6 = CHR ''6''" "digit 7 = CHR ''7''"
  "digit 8 = CHR ''8''" "digit 9 = CHR ''9''" "digit (Suc 0) = CHR ''1''"
  by code_simp+

lemma key_2025_09: "month_key (Some (stamp 2025 9 30 0)) = ''2025-09''"
  by (simp add: month_key_form valid_timestamp_def stamp_def digits)

lemma key_2025_10: "month_key (Some (stamp 2025 10 7 49500)) = ''2025-10''"
  by (simp add: month_key_form valid_timestamp_def stamp_def digits)

lemma key_2024_12: "month_key (Some (stamp 2024 12 31 0)) = ''2024-12''"
  by (simp add: month_key_form valid_timestamp_def stamp_def digits)

lemma sample_keys: "map (\<lambda>t. month_key (Date t)) sample = [''2025-09'', ''2025-10'', ''2024-12'']"
  by (simp add: sample_def key_2025_09 key_2025_10 key_2024_12)

lemma sample_keys_sorted: "sort [''2025-09'', ''2025-10'', ''2024-12''] = [''2024-12'', ''2025-09'', ''2025-10'']"
  by (simp add: less_char_def less_eq_char_def)

lemma months_sample: "months sample = [''2024-12'', ''2025-09'', ''2025-10'']"
  unfolding months_def sample_keys sample_keys_sorted by simp

lemma selected_month_latest:
  assumes ne: "df \<noteq> []"
    and v: "\<And>t. t \<in> set df \<Longrightarrow> \<exists>ts. Date t = Some ts \<and> valid_timestamp ts"
  shows "\<exists>t' ts'. t' \<in> set df \<and> Date t' = Some ts' \<and>
           selected_month df = Some (month_key (Some ts')) \<and>
           (\<forall>t ts. t \<in> set df \<and> Date t = Some ts \<longrightarrow>
              year (date_part ts) < year (date_part ts') \<or>
              (year (date_part ts) = year (date_part ts') \<and>
               month (date_part ts) \<le> month (date_part ts')))"
proof -
  from ne have "last (months df) \<in> set (months df)" by (simp add: months_nonempty)
  then obtain t' where t': "t' \<in> set df" "month_key (Date t') = last (months df)"
    by (auto simp: set_months)
  from v [OF t'(1)] obtain ts' where ts': "Date t' = Some ts'" "valid_timestamp ts'" by blast
  have sel: "selected_month df = Some (month_key (Some ts'))"
    using ne t'(2) ts'(1) by (simp add: selected_month_last)
  have "year (date_part ts) < year (date_part ts') \<or>
              (year (date_part ts) = year (date_part ts') \<and>
               month (date_part ts) \<le> month (date_part ts'))"
    if "t \<in> set df" "Date t = Some ts" for t ts
  proof -
    from v [OF that(1)] that(2) have vt: "valid_timestamp ts" by auto
    from that(1) have "month_key (Date t) \<in> set (months df)" by (simp add: set_months)
    with sorted_months have "month_key (Date t) \<le> last (months df)"
      by (rule sorted_last_max)
    then have "month_key (Some ts) \<le> month_key (Some ts')"
      using that(2) t'(2) ts'(1) by simp
    then show ?thesis by (simp add: month_key_le [OF vt ts'(2)])
  qed
  with t'(1) ts'(1) sel show ?thesis by blast
qed

text \<open>
  C6. Every transaction of the filtered table is in the partition of its own month key
  and in no other, and the sizes of the partitions add up to the size of the table. The
  keys are listed in ascending order of strings, without repetition. The key of a
  timestamp is its year in four digits, a dash and its month in two digits, and on
  such keys the order of strings is the order of the months in time. The default
  selection is the last key of the list, the greatest one; when every row has a
  timestamp it is the month of a transaction that no transaction of the table is
  later than. Timestamps are in the range of pandas, which keeps the year to four
  digits.
\<close>

theorem partition_by_month:
  "(t \<in> set df \<longrightarrow>
      month_key (Date t) \<in> set (months df) \<and>
      t \<in> set (df_month df (month_key (Date t))) \<and>
      filter (\<lambda>k. t \<in> set (df_month df k)) (months df) = [month_key (Date t)]) \<and>
   sum_list (map (\<lambda>k. length (df_month df k)) (months df)) = length df \<and>
   sorted (months df) \<and> distinct (months df) \<and>
   (valid_timestamp ts \<longrightarrow>
      month_key (Some ts) =
        [digit (year (date_part ts) div 1000), digit (year (date_part ts) div 100 mod 10),
         digit (year (date_part ts) div 10 mod 10), digit (year (date_part ts) mod 10),
         CHR ''-'',
         digit (month (date_part ts) div 10), digit (month (date_part ts) mod 10)]) \<and>
   (valid_timestamp ts1 \<and> valid_timestamp ts2 \<longrightarrow>
      (month_key (Some ts1) \<le> month_key (Some ts2) \<longleftrightarrow>
       year (date_part ts1) < year (date_part ts2) \<or>
       (year (date_part ts1) = year (date_part ts2) \<and>
        month (date_part ts1) \<le> month (date_part ts2)))) \<and>
   (df \<noteq> [] \<longrightarrow>
      selected_month df = Some (last (months df)) \<and>
      last (months df) \<in> set (months df) \<and>
      (t \<in> set df \<longrightarrow> month_key (Date t) \<le> last (months df))) \<and>
   (df \<noteq> [] \<and> (\<forall>t\<in>set df. \<exists>ts. Date t = Some ts \<and> valid_timestamp ts) \<longrightarrow>
      (\<exists>t' ts'. t' \<in> set df \<and> Date t' = Some ts' \<and>
           selected_month df = Some (month_key (Some ts')) \<and>
           (\<forall>t ts. t \<in> set df \<and> Date t = Some ts \<longrightarrow>
              year (date_part ts) < year (date_part ts') \<or>
              (year (date_part ts) = year (date_part ts') \<and>
               month (date_part ts) \<le> month (date_part ts')))))"
proof -
  have a: "month_key (Date t) \<in> set (months df) \<and>
      t \<in> set (df_month df (month_key (Date t))) \<and>
      filter (\<lambda>k. t \<in> set (df_month df k)) (months df) = [month_key (Date t)]"
    if "t \<in> set df"
  proof (intro conjI)
    show "month_key (Date t) \<in> set (months df)" using that by (simp add: set_months)
    show "t \<in> set (df_month df (month_key (Date t)))" using that by (simp add: df_month_def)
    show "filter (\<lambda>k. t \<in> set (df_month df k)) (months df) = [month_key (Date t)]"
      using that by (rule one_partition)
  qed
  have b: "sum_list (map (\<lambda>k. length (df_month df k)) (months df)) = length df"
    by (rule partition_covers)
  have c: "sorted (months df) \<and> distinct (months df)"
    by (simp add: sorted_months distinct_months)
  have d: "selected_month df = Some (last (months df)) \<and>
      last (months df) \<in> set (months df) \<and>
      (t \<in> set df \<longrightarrow> month_key (Date t) \<le> last (months df))"
    if "df \<noteq> []"
  proof -
    have "t \<in> set df \<longrightarrow> month_key (Date t) \<le> last (months df)"
    proof
      assume "t \<in> set df"
      then have "month_key (Date t) \<in> set (months df)" by (simp add: set_months)
      with sorted_months show "month_key (Date t) \<le> last (months df)"
        by (rule sorted_last_max)
    qed
    with that show ?thesis
      by (simp add: selected_month_last months_nonempty)
  qed
  have e: "\<exists>t' ts'. t' \<in> set df \<and> Date t' = Some ts' \<and>
           selected_month df = Some (month_key (Some ts')) \<and>
           (\<forall>t ts. t \<in> set df \<and> Date t = Some ts \<longrightarrow>
              year (date_part ts) < year (date_part ts') \<or>
              (year (date_part ts) = year (date_part ts') \<and>
               month (date_part ts) \<le> month (date_part ts')))"
    if "df \<noteq> []" "\<forall>t\<in>set df. \<exists>ts. Date t = Some ts \<and> valid_timestamp ts"
    using that by (intro selected_month_latest) auto
  from a b c d have abcd:
    "(t \<in> set df \<longrightarrow>
      month_key (Date t) \<in> set (months df) \<and>
      t \<in> set (df_month df (month_key (Date t))) \<and>
      filter (\<lambda>k. t \<in> set (df_month df k)) (months df) = [month_key (Date t)]) \<and>
     sum_list (map (\<lambda>k. length (df_month df k)) (months df)) = length df \<and>
     sorted (months df) \<and> distinct (months df) \<and>
     (df \<noteq> [] \<longrightarrow>
      selected_month df = Some (last (months df)) \<and>
      last (months df) \<in> set (months df) \<and>
      (t \<in> set df \<longrightarrow> month_key (Date t) \<le> last (months df)))"
    by blast
  from abcd e month_key_form [of ts] month_key_le [of ts1 ts2] show ?thesis
    by (intro conjI impI) (simp_all del: last_in_set)
qed

text \<open>
  On the three sample transactions the keys are 2024-12, 2025-09 and 2025-10, and the
  default selection is 2025-10.
\<close>

theorem partition_by_month_witness:
  "(expense ''Rent'' 900)\<lparr>Date := Some (stamp 2025 10 7 49500)\<rparr> \<in> set sample \<and>
   sample \<noteq> [] \<and>
   valid_timestamp (stamp 2025 9 30 0) \<and> valid_timestamp (stamp 2025 10 7 49500) \<and>
   list_all (\<lambda>t. \<exists>ts. Date t = Some ts \<and> valid_timestamp ts) sample \<and>
   months sample = [''2024-12'', ''2025-09'', ''2025-10''] \<and>
   sorted (months sample) \<and>
   selected_month sample = Some ''2025-10'' \<and>
   filter (\<lambda>k. (expense ''Rent'' 900)\<lparr>Date := Some (stamp 2025 10 7 49500)\<rparr>
                  \<in> set (df_month sample k)) (months sample) = [''2025-10''] \<and>
   sum_list (map (\<lambda>k. length (df_month sample k)) (months sample)) = 3 \<and>
   month_key (Some (stamp 2025 9 30 0)) \<le> month_key (Some (stamp 2025 10 7 49500)) \<and>
   (\<exists>t' ts'. t' \<in> set sample \<and> Date t' = Some ts' \<and>
      selected_month sample = Some (month_key (Some ts')) \<and>
      (\<forall>t ts. t \<in> set sample \<and> Date t = Some ts \<longrightarrow>
         year (date_part ts) < year (date_part ts') \<or>
         (year (date_part ts) = year (date_part ts') \<and>
          month (date_part ts) \<le> month (date_part ts'))))"
proof -
  let ?t = "(expense ''Rent'' 900)\<lparr>Date := Some (stamp 2025 10 7 49500)\<rparr>"
  let ?a = "stamp 2025 9 30 0"
  let ?b = "stamp 2025 10 7 49500"
  have h1: "?t \<in> set sample" by (simp add: sample_def)
  have h2: "sample \<noteq> []" by (simp add: sample_def)
  have h3: "valid_timestamp ?a" "valid_timestamp ?b"
    by (simp_all add: valid_timestamp_def stamp_def)
  have h4: "year (date_part ?a) < year (date_part ?b) \<or>
       (year (date_part ?a) = year (date_part ?b) \<and> month (date_part ?a) \<le> month (date_part ?b))"
    by (simp add: stamp_def)
  have h5: "\<forall>t\<in>set sample. \<exists>ts. Date t = Some ts \<and> valid_timestamp ts"
    by (simp add: sample_def valid_timestamp_def stamp_def)
  then have h5': "list_all (\<lambda>t. \<exists>ts. Date t = Some ts \<and> valid_timestamp ts) sample"
    by (simp add: list_all_iff)
  have kt: "month_key (Date ?t) = ''2025-10''" by (simp add: key_2025_10)
  have len: "length sample = 3" by (simp add: sample_def)
  note th = partition_by_month [of ?t sample ?b ?a ?b]
  from th h1 h2 h3 h4
  have concl:
    "filter (\<lambda>k. ?t \<in> set (df_month sample k)) (months sample) = [month_key (Date ?t)] \<and>
     sum_list (map (\<lambda>k. length (df_month sample k)) (months sample)) = length sample \<and>
     sorted (months sample) \<and>
     selected_month sample = Some (last (months sample)) \<and>
     month_key (Some ?a) \<le> month_key (Some ?b)"
    by blast
  then have c1:
    "filter (\<lambda>k. ?t \<in> set (df_month sample k)) (months sample) = [''2025-10''] \<and>
     sum_list (map (\<lambda>k. length (df_month sample k)) (months sample)) = 3 \<and>
     sorted (months sample) \<and>
     selected_month sample = Some ''2025-10'' \<and>
     month_key (Some ?a) \<le> month_key (Some ?b)"
    unfolding kt len by (simp add: months_sample)
  from th h2 h5
  have c2: "\<exists>t' ts'. t' \<in> set sample \<and> Date t' = Some ts' \<and>
      selected_month sample = Some (month_key (Some ts')) \<and>
      (\<forall>t ts. t \<in> set sample \<and> Date t = Some ts \<longrightarrow>
         year (date_part ts) < year (date_part ts') \<or>
         (year (date_part ts) = year (date_part ts') \<and>
          month (date_part ts) \<le> month (date_part ts')))"
    by blast
  from h1 h2 h3 h5' months_sample c1 c2 show ?thesis by blast
qed
section \<open>Properties of the writes and the cache\<close>

lemma append_transaction_sheet:
  "transactions_ws (append_transaction row sp w) sp' =
     (if sp' = sp then transactions_ws w sp @ [row] else transactions_ws w sp')"
  by (auto simp: append_transaction_def load_transactions_def cached_records_def
      split: option.splits)

text \<open>
  With the default spreadsheet selected, the run after the submission reads the rows of
  the sheet followed by the row of the form, every field as entered.
\<close>

lemma add_expense_submit_default:
  "rows (fst (load_transactions SHEET_NAME
            (add_expense_submit date_in category_in desc_in amount_in method_in notes_in payer_in w))) =
   transactions_ws w SHEET_NAME @
     [\<lparr>Date = isoformat date_in, Category = category_in,
       Description = desc_in, Amount = Numeric amount_in, Payment_Method = method_in,
       Notes = notes_in, Payer = payer_in\<rparr>]"
  by (simp add: add_expense_submit_def Let_def clear_def load_transactions_def
      cached_records_def append_transaction_sheet DataFrame_def)

text \<open>
  With any other spreadsheet selected, the run after the submission reads the rows that
  spreadsheet had before: the row of the form went to the default spreadsheet.
\<close>

lemma add_expense_submit_other:
  "selected \<noteq> SHEET_NAME \<Longrightarrow>
   rows (fst (load_transactions selected
            (add_expense_submit date_in category_in desc_in amount_in method_in notes_in payer_in w))) =
   transactions_ws w selected"
  by (simp add: add_expense_submit_def Let_def clear_def load_transactions_def
      cached_records_def append_transaction_sheet DataFrame_def)

lemma isoformat_2025_10_07: "isoformat \<lparr>year = 2025, month = 10, day = 7\<rparr> = ''2025-10-07''"
  by (simp add: isoformat_def zero_pad_4 zero_pad_2 digits)

text \<open>
  C4 on the code: the sidebar selects the other spreadsheet of line 102 and the
  expense form is submitted. The row is written to the default spreadsheet, and the
  reload, which reads the selected spreadsheet, does not hold it.
\<close>

theorem add_expense_other_spreadsheet_not_reloaded:
  "rows (fst (load_transactions ''Another Spreadsheet''
      (add_expense_submit \<lparr>year = 2025, month = 10, day = 7\<rparr> ''Food'' ''Lunch'' 12 ''Visa'' [] ''You''
         (world_of [] [] [])))) = [] \<and>
   transactions_ws
      (add_expense_submit \<lparr>year = 2025, month = 10, day = 7\<rparr> ''Food'' ''Lunch'' 12 ''Visa'' [] ''You''
         (world_of [] [] [])) SHEET_NAME =
     [\<lparr>Date = ''2025-10-07'', Category = ''Food'', Description = ''Lunch'',
       Amount = Numeric 12, Payment_Method = ''Visa'', Notes = [], Payer = ''You''\<rparr>]"
proof -
  have ne: "''Another Spreadsheet'' \<noteq> SHEET_NAME" by (simp add: SHEET_NAME_def)
  have a: "rows (fst (load_transactions ''Another Spreadsheet''
      (add_expense_submit \<lparr>year = 2025, month = 10, day = 7\<rparr> ''Food'' ''Lunch'' 12 ''Visa'' [] ''You''
         (world_of [] [] [])))) = transactions_ws (world_of [] [] []) ''Another Spreadsheet''"
    by (rule add_expense_submit_other [OF ne])
  have a': "transactions_ws (world_of [] [] []) ''Another Spreadsheet'' = []"
    by (simp add: world_of_def)
  have b: "transactions_ws
      (add_expense_submit \<lparr>year = 2025, month = 10, day = 7\<rparr> ''Food'' ''Lunch'' 12 ''Visa'' [] ''You''
         (world_of [] [] [])) SHEET_NAME =
     [\<lparr>Date = ''2025-10-07'', Category = ''Food'', Description = ''Lunch'',
       Amount = Numeric 12, Payment_Method = ''Visa'', Notes = [], Payer = ''You''\<rparr>]"
    by (simp add: add_expense_submit_def Let_def clear_def append_transaction_sheet
        world_of_def isoformat_2025_10_07)
  from a a' b show ?thesis by simp
qed

end
